theory Spec2Isabelle
  imports Main
begin

section \<open>Data model of \<open>src/main.js\<close>\<close>

text \<open>
  The program keeps its state in module-level variables: the drum kit (track registry),
  the step count, the grid being edited (pattern buffer), the pattern library, the song
  timeline (arrangement), the name of the pattern being edited live, the global step
  counter of the playback engine and the state of \<open>Tone.Transport\<close>.

  A cell of a grid is the number 0 or 1; a row is an array of cells and a matrix an array
  of rows. Every array the program stores is freshly built (the JSON round trip of
  \<open>saveCurrentToLibrary\<close> and of the save handler, the spread copy of
  \<open>loadPattern\<close>, \<open>map\<close>, \<open>Array(n).fill(0)\<close>), so the grid never shares a
  row with a library entry: lists as values are a faithful reading of the arrays, and a
  deep copy of a matrix is the matrix itself.

  Bars are integers (\<open>Math.floor\<close> of a pixel offset). The step counter is a natural
  number. The calls into the sound engine (\<open>kit.triggerAttack\<close>,
  \<open>kit.triggerAttackRelease\<close>) are taken to return.

  A handler that can return early or throw has a result in \<open>error + state\<close>. It
  returns \<open>Inl\<close> where the source returns before its first assignment, so that the
  variables are what they were, or where it throws.
\<close>

subsection \<open>Texts\<close>

text \<open>
  A text the user types (the name of a pattern or of a drum, the step count) is a
  JavaScript string: a list of UTF-16 code units. \<open>str\<close> gives the code units of a
  text written in ASCII. The notes and colours are constants of the source and stay
  HOL strings.
\<close>

type_synonym jsstring = "nat list"

definition str :: "string \<Rightarrow> jsstring" where
  "str cs = map of_char cs"

text \<open>
  The code units that \<open>String.prototype.trim\<close> and \<open>parseInt\<close> strip: the white
  space and line terminators of ECMAScript (tab to carriage return, space, no-break
  space, U+1680, U+2000 to U+200A, U+2028, U+2029, U+202F, U+205F, U+3000, U+FEFF).
\<close>

definition is_space :: "nat \<Rightarrow> bool" where
  "is_space u =
     ((9 \<le> u \<and> u \<le> 13) \<or> u = 32 \<or> u = 160 \<or> u = 5760 \<or> (8192 \<le> u \<and> u \<le> 8202)
      \<or> u = 8232 \<or> u = 8233 \<or> u = 8239 \<or> u = 8287 \<or> u = 12288 \<or> u = 65279)"

definition trim :: "jsstring \<Rightarrow> jsstring" where
  "trim text = rev (dropWhile is_space (rev (dropWhile is_space text)))"

text \<open>
  The built-in \<open>parseInt\<close> with no radix, after ECMAScript: leading white space is
  dropped, then a sign, then the prefix \<open>0x\<close> or \<open>0X\<close> (which makes the radix 16);
  the digits that follow, up to the first code unit that is no digit of the radix, are
  the integer; without a digit the result is \<open>NaN\<close> (\<open>None\<close>). The result is
  the exact integer: as a JavaScript number it is rounded beyond \<open>2^53\<close>, which
  changes no comparison with 0 or 64.
\<close>

definition digit_value :: "nat \<Rightarrow> nat option" where
  "digit_value u =
     (if 48 \<le> u \<and> u \<le> 57 then Some (u - 48)
      else if 97 \<le> u \<and> u \<le> 122 then Some (u - 87)
      else if 65 \<le> u \<and> u \<le> 90 then Some (u - 55)
      else None)"

definition is_radix_digit :: "nat \<Rightarrow> nat \<Rightarrow> bool" where
  "is_radix_digit R u = (case digit_value u of None \<Rightarrow> False | Some d \<Rightarrow> d < R)"

definition radix_value :: "nat \<Rightarrow> jsstring \<Rightarrow> nat" where
  "radix_value R Z =
     foldl (\<lambda>n u. n * R + (case digit_value u of None \<Rightarrow> 0 | Some d \<Rightarrow> d)) 0 Z"

definition parseInt :: "jsstring \<Rightarrow> int option" where
  "parseInt input =
     (let S = dropWhile is_space input;
          negative = (S \<noteq> [] \<and> hd S = 45);
          S1 = (if S \<noteq> [] \<and> (hd S = 43 \<or> hd S = 45) then tl S else S);
          hex = (2 \<le> length S1 \<and> S1 ! 0 = 48 \<and> (S1 ! 1 = 120 \<or> S1 ! 1 = 88));
          R = (if hex then 16 else 10);
          Z = takeWhile (is_radix_digit R) (if hex then drop 2 S1 else S1)
      in if Z = [] then None
         else Some (if negative then - int (radix_value R Z) else int (radix_value R Z)))"

subsection \<open>State\<close>

type_synonym row = "nat list"
type_synonym matrix = "nat list list"
record drum =
  drum_name :: jsstring
  drum_note :: string
  drum_color :: string

record block =
  name :: jsstring
  startBar :: int

text \<open>
  \<open>patternLibrary\<close> is a plain JavaScript object used as a dictionary. Its own
  properties are the saved patterns. A read \<open>patternLibrary[k]\<close> that finds no own
  property continues along the prototype chain, and the assignment
  \<open>patternLibrary['__proto__'] = v\<close> runs the setter inherited from
  \<open>Object.prototype\<close>, which makes the array \<open>v\<close> the prototype of the library
  instead of creating a property. \<open>proto\<close> is \<open>None\<close> while the prototype is
  \<open>Object.prototype\<close> and \<open>Some a\<close> once it has been replaced by the array \<open>a\<close>
  (whose own chain is \<open>Array.prototype\<close>, then \<open>Object.prototype\<close>).
\<close>

record library =
  own :: "jsstring \<rightharpoonup> matrix"
  proto :: "matrix option"

datatype transport_state = Started | Stopped

record state =
  drumKit :: "drum list"
  currentSteps :: nat
  gridData :: matrix
  patternLibrary :: library
  songTimeline :: "block list"
  currentActivePattern :: "jsstring option"
  globalStep :: nat
  transport :: transport_state

datatype error =
    CapacityExceeded
  | InvalidName
  | NotFound
  | OutOfRange
  | Cancelled
  | TypeError

subsection \<open>Values read from the library object\<close>

text \<open>
  What \<open>patternLibrary[k]\<close> can evaluate to: \<open>undefined\<close>, a saved matrix, a row of
  the array that replaced the prototype, the \<open>length\<close> of that array, or a function or
  object inherited from \<open>Array.prototype\<close> or \<open>Object.prototype\<close> (all of them
  truthy and none with a property \<open>0\<close>). The inherited names are those of
  ECMAScript 2023 with the legacy accessors of browsers.
\<close>

datatype jsval = Undefined | Matrix matrix | Row row | Num nat | Inherited

fun truthy :: "jsval \<Rightarrow> bool" where
  "truthy Undefined = False"
| "truthy (Matrix m) = True"
| "truthy (Row r) = True"
| "truthy (Num n) = (n \<noteq> 0)"
| "truthy Inherited = True"

definition object_prototype_names :: "jsstring list" where
  "object_prototype_names = map str
     [''constructor'', ''__defineGetter__'', ''__defineSetter__'', ''hasOwnProperty'',
      ''__lookupGetter__'', ''__lookupSetter__'', ''isPrototypeOf'',
      ''propertyIsEnumerable'', ''toString'', ''valueOf'', ''__proto__'',
      ''toLocaleString'']"

definition array_prototype_names :: "jsstring list" where
  "array_prototype_names = map str
     [''constructor'', ''at'', ''concat'', ''copyWithin'', ''fill'', ''find'',
      ''findIndex'', ''findLast'', ''findLastIndex'', ''lastIndexOf'', ''pop'', ''push'',
      ''reverse'', ''shift'', ''unshift'', ''slice'', ''sort'', ''splice'', ''includes'',
      ''indexOf'', ''join'', ''keys'', ''entries'', ''values'', ''forEach'', ''filter'',
      ''flat'', ''flatMap'', ''map'', ''every'', ''some'', ''reduce'', ''reduceRight'',
      ''toLocaleString'', ''toString'', ''toReversed'', ''toSorted'', ''toSpliced'',
      ''with'']"

definition is_digit :: "nat \<Rightarrow> bool" where
  "is_digit u = (48 \<le> u \<and> u \<le> 57)"

text \<open>An array index is a canonical decimal numeral: digits only, no leading zero.\<close>

definition array_index :: "jsstring \<Rightarrow> nat option" where
  "array_index k =
     (if k \<noteq> [] \<and> list_all is_digit k \<and> (length k = 1 \<or> hd k \<noteq> 48)
      then Some (foldl (\<lambda>n u. 10 * n + (u - 48)) 0 k)
      else None)"

text \<open>A read through the chain of a replaced prototype \<open>a\<close>.\<close>

definition array_chain_get :: "matrix \<Rightarrow> jsstring \<Rightarrow> jsval" where
  "array_chain_get a k =
     (case array_index k of
        Some i \<Rightarrow> if i < length a then Row (a ! i) else Undefined
      | None \<Rightarrow>
          if k = (str ''length'') then Num (length a)
          else if k = (str ''__proto__'') then Matrix a
          else if k \<in> set array_prototype_names \<or> k \<in> set object_prototype_names
            then Inherited
          else Undefined)"

text \<open>\<open>patternLibrary[k]\<close> as an expression.\<close>

definition js_get :: "library \<Rightarrow> jsstring \<Rightarrow> jsval" where
  "js_get lib k =
     (case own lib k of
        Some m \<Rightarrow> Matrix m
      | None \<Rightarrow>
          (case proto lib of
             None \<Rightarrow> if k \<in> set object_prototype_names then Inherited else Undefined
           | Some a \<Rightarrow> array_chain_get a k))"

text \<open>
  \<open>patternLibrary[k] = v\<close>: an own property is overwritten; otherwise the key
  \<open>__proto__\<close> reaches the inherited setter, and every other key becomes a new own
  property (the inherited properties are writable data properties).
\<close>

definition js_set :: "library \<Rightarrow> jsstring \<Rightarrow> matrix \<Rightarrow> library" where
  "js_set lib k v =
     (if own lib k = None \<and> k = (str ''__proto__'') then lib\<lparr>proto := Some v\<rparr>
      else lib\<lparr>own := (own lib)(k \<mapsto> v)\<rparr>)"

subsection \<open>Configuration and initial state\<close>

definition NOTE_POOL :: "string list" where
  "NOTE_POOL =
     [''C1'', ''D1'', ''E1'', ''F1'', ''F#1'', ''G1'', ''A1'', ''B1'',
      ''C2'', ''D2'', ''E2'', ''F2'', ''F#2'', ''G2'', ''A2'', ''B2'',
      ''C3'', ''D3'', ''E3'', ''F3'', ''F#3'', ''G3'', ''A3'', ''B3'']"

definition initial_kit :: "drum list" where
  "initial_kit =
     [\<lparr>drum_name = (str ''Kick''), drum_note = ''C1'', drum_color = ''#FF9800''\<rparr>,
      \<lparr>drum_name = (str ''Snare''), drum_note = ''D1'', drum_color = ''#2196F3''\<rparr>,
      \<lparr>drum_name = (str ''Tom 1''), drum_note = ''E1'', drum_color = ''#3F51B5''\<rparr>,
      \<lparr>drum_name = (str ''Tom 2''), drum_note = ''F1'', drum_color = ''#3F51B5''\<rparr>,
      \<lparr>drum_name = (str ''Floor Tom''), drum_note = ''G1'', drum_color = ''#3F51B5''\<rparr>,
      \<lparr>drum_name = (str ''Hi-Hat Cl''), drum_note = ''F#1'', drum_color = ''#9C27B0''\<rparr>,
      \<lparr>drum_name = (str ''Hi-Hat Op''), drum_note = ''A1'', drum_color = ''#9C27B0''\<rparr>,
      \<lparr>drum_name = (str ''Crash''), drum_note = ''B1'', drum_color = ''#E91E63''\<rparr>]"

text \<open>\<open>Array(rows).fill().map(() => Array(steps).fill(0))\<close>\<close>

definition zero_grid :: "nat \<Rightarrow> nat \<Rightarrow> matrix" where
  "zero_grid rows steps = replicate rows (replicate steps 0)"

definition resetGridData :: "state \<Rightarrow> state" where
  "resetGridData s = s\<lparr>gridData := zero_grid (length (drumKit s)) (currentSteps s)\<rparr>"

definition initial_state :: state where
  "initial_state =
     resetGridData
       \<lparr>drumKit = initial_kit, currentSteps = 16, gridData = [],
        patternLibrary = \<lparr>own = Map.empty, proto = None\<rparr>,
        songTimeline = [], currentActivePattern = None, globalStep = 0,
        transport = Stopped\<rparr>"

section \<open>Drum rack: the add-piece button\<close>

text \<open>
  The handler of \<open>add-piece-button\<close>. The argument is what \<open>prompt\<close> returned
  (\<open>None\<close> for a cancelled dialog). The note of the new drum is the first note of
  the pool that no drum of the kit uses.
\<close>

definition addTrack :: "jsstring option \<Rightarrow> state \<Rightarrow> error + state" where
  "addTrack answer s =
     (case answer of
        None \<Rightarrow> Inl Cancelled
      | Some nm \<Rightarrow>
          if nm = [] then Inl Cancelled
          else
            (let usedNotes = map drum_note (drumKit s) in
             case find (\<lambda>n. n \<notin> set usedNotes) NOTE_POOL of
               None \<Rightarrow> Inl CapacityExceeded
             | Some nextNote \<Rightarrow>
                 Inr (s\<lparr>drumKit :=
                          drumKit s
                          @ [\<lparr>drum_name = nm, drum_note = nextNote, drum_color = ''#ffffff''\<rparr>],
                        gridData := gridData s @ [replicate (currentSteps s) 0]\<rparr>)))"

text \<open>Pressing the button once for each answer of a list, stopping at the first refusal.\<close>

fun addTracks :: "jsstring option list \<Rightarrow> state \<Rightarrow> error + state" where
  "addTracks [] s = Inr s"
| "addTracks (a # as) s =
     (case addTrack a s of Inl e \<Rightarrow> Inl e | Inr s' \<Rightarrow> addTracks as s')"

section \<open>Grid editor\<close>

text \<open>\<open>if (currentActivePattern)\<close>: neither \<open>null\<close> nor the empty string.\<close>

definition active_name :: "state \<Rightarrow> jsstring option" where
  "active_name s =
     (case currentActivePattern s of
        None \<Rightarrow> None
      | Some k \<Rightarrow> if k = [] then None else Some k)"

definition saveCurrentToLibrary :: "state \<Rightarrow> state" where
  "saveCurrentToLibrary s =
     (case active_name s of
        None \<Rightarrow> s
      | Some k \<Rightarrow> s\<lparr>patternLibrary := js_set (patternLibrary s) k (gridData s)\<rparr>)"

text \<open>
  One row of \<open>adjustGridSize\<close>: a new row of zeros, then \<open>row.forEach\<close> copies each
  old cell whose index is below the new length.
\<close>

definition resize_row :: "nat \<Rightarrow> row \<Rightarrow> row" where
  "resize_row newStepCount old =
     fold (\<lambda>index newRow. if index < newStepCount then newRow[index := old ! index] else newRow)
       [0..<length old] (replicate newStepCount 0)"

definition adjustGridSize :: "nat \<Rightarrow> state \<Rightarrow> state" where
  "adjustGridSize newStepCount s =
     saveCurrentToLibrary (s\<lparr>gridData := map (resize_row newStepCount) (gridData s)\<rparr>)"

text \<open>The \<open>change\<close> handler of the step-count input, with the text of the field.\<close>

definition stepsInput_change :: "jsstring \<Rightarrow> state \<Rightarrow> state" where
  "stepsInput_change text s =
     (case parseInt text of
        None \<Rightarrow> s
      | Some newSteps \<Rightarrow>
          if newSteps > 0 \<and> newSteps \<le> 64
          then adjustGridSize (nat newSteps) (s\<lparr>currentSteps := nat newSteps\<rparr>)
          else s)"

text \<open>
  The \<open>mousedown\<close> handler of the grid, with the cell that was hit. A grid with fewer
  rows than the kit makes \<open>gridData[row]\<close> undefined and the write a \<open>TypeError\<close>. A
  write past the end of a row would leave holes in the array, which every read of the
  program (a comparison with 1) treats as 0; the model fills them with 0, and the
  properties of \<open>toggle\<close> are stated for aligned grids, where the cell exists. The
  audition sound is an effect of the sound engine only.
\<close>

definition toggle :: "nat \<Rightarrow> nat \<Rightarrow> state \<Rightarrow> error + state" where
  "toggle r step s =
     (if r \<ge> length (drumKit s) \<or> step \<ge> currentSteps s then Inl OutOfRange
      else if r \<ge> length (gridData s) then Inl TypeError
      else
        (let old = gridData s ! r;
             v = (if step < length old \<and> old ! step = 1 then 0 else 1);
             new = (if step < length old then old[step := v]
                    else old @ replicate (step - length old) 0 @ [v])
         in Inr (saveCurrentToLibrary (s\<lparr>gridData := (gridData s)[r := new]\<rparr>))))"

definition clear_button :: "state \<Rightarrow> state" where
  "clear_button s = saveCurrentToLibrary (resetGridData s)"

section \<open>Library: save as, load\<close>

text \<open>The handler of \<open>save-part-button\<close>, with the text of the name field.\<close>

definition saveAs :: "jsstring \<Rightarrow> state \<Rightarrow> error + state" where
  "saveAs text s =
     (let k = trim text in
      if k = [] then Inl InvalidName
      else Inr (s\<lparr>patternLibrary := js_set (patternLibrary s) k (gridData s),
                 currentActivePattern := Some k\<rparr>))"

text \<open>
  \<open>loadPattern\<close> is the \<open>onclick\<close> of the library buttons, and \<open>updateLibraryUI\<close>
  builds one button for each of \<open>Object.keys(patternLibrary)\<close>: the name it receives
  is an own key, so the read is a read of \<open>own\<close>. A missing entry is the early return.
\<close>

definition loadPattern :: "jsstring \<Rightarrow> state \<Rightarrow> error + state" where
  "loadPattern k s =
     (case own (patternLibrary s) k of
        None \<Rightarrow> Inl NotFound
      | Some savedData \<Rightarrow>
          (let savedSteps = (case savedData of [] \<Rightarrow> 16 | r0 # rest \<Rightarrow> length r0) in
           Inr (s\<lparr>currentActivePattern := Some k,
                  currentSteps := savedSteps,
                  gridData :=
                    map (\<lambda>index. if index < length savedData then savedData ! index
                                  else replicate savedSteps 0)
                      [0..<length (drumKit s)]\<rparr>)))"

section \<open>Timeline arranger\<close>

text \<open>
  A left click on the timeline at a bar, with the text of the name field; a right click
  removes the first block at the bar (\<open>findIndex\<close>, \<open>splice\<close>).
\<close>

definition place :: "int \<Rightarrow> jsstring \<Rightarrow> state \<Rightarrow> error + state" where
  "place bar text s =
     (let k = trim text in
      if truthy (js_get (patternLibrary s) k)
      then Inr (s\<lparr>songTimeline :=
                    filter (\<lambda>b. startBar b \<noteq> bar) (songTimeline s) @ [\<lparr>name = k, startBar = bar\<rparr>]\<rparr>)
      else Inl NotFound)"

fun remove_first :: "('a \<Rightarrow> bool) \<Rightarrow> 'a list \<Rightarrow> 'a list" where
  "remove_first P [] = []"
| "remove_first P (x # xs) = (if P x then xs else x # remove_first P xs)"

definition remove_block :: "int \<Rightarrow> state \<Rightarrow> state" where
  "remove_block bar s = s\<lparr>songTimeline := remove_first (\<lambda>b. startBar b = bar) (songTimeline s)\<rparr>"

section \<open>Playback engine\<close>

text \<open>
  The accumulated step offset is a JavaScript number. It is a natural number until a
  block's \<open>pattern[0].length\<close> is \<open>undefined\<close>; from then on it is \<open>NaN\<close>, and
  every comparison with it is false.
\<close>

datatype jsnum = Fin nat | NaN

fun js_add :: "jsnum \<Rightarrow> jsnum \<Rightarrow> jsnum" where
  "js_add (Fin a) (Fin b) = Fin (a + b)"
| "js_add x y = NaN"

fun fin :: "jsnum \<Rightarrow> nat" where
  "fin (Fin a) = a"
| "fin NaN = 0"

text \<open>\<open>globalStep >= accumulatedSteps && globalStep < accumulatedSteps + patternLength\<close>\<close>

fun in_window :: "nat \<Rightarrow> jsnum \<Rightarrow> jsnum \<Rightarrow> bool" where
  "in_window g (Fin a) (Fin l) = (g \<ge> a \<and> g < a + l)"
| "in_window g x y = False"

text \<open>\<open>globalStep >= accumulatedSteps\<close>\<close>

fun past_end :: "nat \<Rightarrow> jsnum \<Rightarrow> bool" where
  "past_end g (Fin a) = (g \<ge> a)"
| "past_end g NaN = False"

text \<open>
  \<open>pattern[0].length\<close> for a truthy \<open>pattern\<close>: the length of the first row of a
  matrix; \<open>undefined\<close> (here \<open>NaN\<close>, as it only enters sums) when \<open>pattern\<close> is a
  row, whose element 0 is a number; a \<open>TypeError\<close> when \<open>pattern[0]\<close> is undefined.
\<close>

fun first_row_length :: "jsval \<Rightarrow> error + jsnum" where
  "first_row_length (Matrix []) = Inl TypeError"
| "first_row_length (Matrix (r0 # rest)) = Inr (Fin (length r0))"
| "first_row_length (Row []) = Inl TypeError"
| "first_row_length (Row (c # rest)) = Inr NaN"
| "first_row_length (Num n) = Inl TypeError"
| "first_row_length Inherited = Inl TypeError"
| "first_row_length Undefined = Inl TypeError"

text \<open>
  The \<open>for\<close> loop of the scheduler callback over the sorted timeline, from a block
  onwards: the block found with its local step, and the accumulated offset at the end.
\<close>

fun find_block ::
  "library \<Rightarrow> nat \<Rightarrow> block list \<Rightarrow> jsnum \<Rightarrow> error + ((block \<times> nat) option \<times> jsnum)" where
  "find_block lib g [] acc = Inr (None, acc)"
| "find_block lib g (b # bs) acc =
     (if truthy (js_get lib (name b)) then
        (case first_row_length (js_get lib (name b)) of
           Inl e \<Rightarrow> Inl e
         | Inr patternLength \<Rightarrow>
             if in_window g acc patternLength
             then Inr (Some (b, g - fin acc), acc)
             else find_block lib g bs (js_add acc patternLength))
      else find_block lib g bs acc)"

text \<open>The notes handed to \<open>kit.triggerAttack\<close> for a pattern at a local step.\<close>

definition triggered :: "drum list \<Rightarrow> jsval \<Rightarrow> nat \<Rightarrow> string list" where
  "triggered kit pattern localStep =
     (case pattern of
        Matrix m \<Rightarrow>
          map (\<lambda>r. drum_note (kit ! r))
            (filter (\<lambda>r. r < length kit \<and> localStep < length (m ! r) \<and> m ! r ! localStep = 1)
               [0..<length m])
      | other \<Rightarrow> [])"

definition stopPlayback :: "state \<Rightarrow> state" where
  "stopPlayback s = s\<lparr>transport := Stopped, globalStep := 0\<rparr>"

text \<open>
  One run of the callback given to \<open>Tone.Transport.scheduleRepeat\<close>. \<open>sort\<close> sorts
  \<open>songTimeline\<close> in place and is stable. \<open>stopPlayback\<close> does not end the
  callback: the increment of the counter at its end runs in every case. The result is
  the state after the callback and the notes it triggered, or the error it threw (with
  the timeline sorted and nothing else assigned).
\<close>

definition tick :: "state \<Rightarrow> error + (state \<times> string list)" where
  "tick s =
     (let sortedTimeline = sort_key startBar (songTimeline s);
          s1 = s\<lparr>songTimeline := sortedTimeline\<rparr>
      in case find_block (patternLibrary s) (globalStep s) sortedTimeline (Fin 0) of
           Inl e \<Rightarrow> Inl e
         | Inr (Some (foundBlock, localStep), accumulatedSteps) \<Rightarrow>
             Inr (s1\<lparr>globalStep := globalStep s1 + 1\<rparr>,
                  triggered (drumKit s) (js_get (patternLibrary s) (name foundBlock)) localStep)
         | Inr (None, accumulatedSteps) \<Rightarrow>
             (let s2 = (if past_end (globalStep s) accumulatedSteps \<and> sortedTimeline \<noteq> []
                        then stopPlayback s1 else s1)
              in Inr (s2\<lparr>globalStep := globalStep s2 + 1\<rparr>, [])))"

text \<open>The play button: stop when the transport is started, start otherwise.\<close>

definition play_button :: "state \<Rightarrow> state" where
  "play_button s =
     (if transport s = Started then stopPlayback s else s\<lparr>transport := Started\<rparr>)"

text \<open>
  The transport's clock runs the callback once per sixteenth note while the transport is
  started: \<open>n\<close> pulses of the clock.
\<close>

fun run_ticks :: "nat \<Rightarrow> state \<Rightarrow> error + state" where
  "run_ticks 0 s = Inr s"
| "run_ticks (Suc n) s =
     (if transport s = Started then
        (case tick s of Inl e \<Rightarrow> Inl e | Inr (s', notes) \<Rightarrow> run_ticks n s')
      else Inr s)"

section \<open>Notions used to state the properties\<close>

text \<open>
  The states the user interface can reach from the initial state: one rule per handler,
  and one for a pulse of the clock, which fires only while the transport is started. A
  handler that returns early leaves the state as it is. (The tempo field and the export
  button are left out: they act on the transport and the recorder.)
\<close>

inductive reachable :: "state \<Rightarrow> bool" where
  start: "reachable initial_state"
| add_piece: "reachable s \<Longrightarrow> addTrack answer s = Inr s' \<Longrightarrow> reachable s'"
| steps: "reachable s \<Longrightarrow> reachable (stepsInput_change text s)"
| grid_click: "reachable s \<Longrightarrow> toggle r step s = Inr s' \<Longrightarrow> reachable s'"
| clear: "reachable s \<Longrightarrow> reachable (clear_button s)"
| save: "reachable s \<Longrightarrow> saveAs text s = Inr s' \<Longrightarrow> reachable s'"
| load: "reachable s \<Longrightarrow> loadPattern k s = Inr s' \<Longrightarrow> reachable s'"
| timeline_click: "reachable s \<Longrightarrow> place bar text s = Inr s' \<Longrightarrow> reachable s'"
| timeline_right_click: "reachable s \<Longrightarrow> reachable (remove_block bar s)"
| play: "reachable s \<Longrightarrow> reachable (play_button s)"
| clock: "reachable s \<Longrightarrow> transport s = Started \<Longrightarrow> tick s = Inr (s', ns) \<Longrightarrow> reachable s'"

text \<open>
  The grid is aligned with the kit and the step count; every matrix of the library has a
  first row, at least one step and rows of one length.
\<close>

definition good_matrix :: "matrix \<Rightarrow> bool" where
  "good_matrix m =
     (m \<noteq> [] \<and> 1 \<le> length (hd m) \<and> list_all (\<lambda>row. length row = length (hd m)) m)"

definition aligned :: "state \<Rightarrow> bool" where
  "aligned s = (length (gridData s) = length (drumKit s) \<and> drumKit s \<noteq> []
      \<and> 1 \<le> currentSteps s \<and> list_all (\<lambda>row. length row = currentSteps s) (gridData s))"

definition library_ok :: "library \<Rightarrow> bool" where
  "library_ok lib = ((\<forall>k m. own lib k = Some m \<longrightarrow> good_matrix m)
      \<and> (\<forall>m. proto lib = Some m \<longrightarrow> good_matrix m))"

definition invariant :: "state \<Rightarrow> bool" where
  "invariant s = (aligned s \<and> library_ok (patternLibrary s))"

text \<open>
  The scheduler's view of a block, in the words of the specification: a block resolves
  when its name reads as a stored matrix with a first row; its length \<open>L\<close> is the
  length of that row; the offset of a prefix of the timeline is the sum of its lengths.
\<close>

definition resolves :: "library \<Rightarrow> block \<Rightarrow> bool" where
  "resolves lib b =
     (case js_get lib (name b) of Matrix (r0 # rest) \<Rightarrow> True | other \<Rightarrow> False)"

definition block_length :: "library \<Rightarrow> block \<Rightarrow> nat" where
  "block_length lib b =
     (case js_get lib (name b) of Matrix (r0 # rest) \<Rightarrow> length r0 | other \<Rightarrow> 0)"

definition offset :: "library \<Rightarrow> block list \<Rightarrow> nat" where
  "offset lib pre = sum_list (map (block_length lib) pre)"

text \<open>
  The example of the specification: pattern A of 4 steps at bar 0 and pattern B of 8 steps
  at bar 10, B placed first, with the step counter at \<open>g\<close>.
\<close>

definition block_A :: block where "block_A = \<lparr>name = (str ''A''), startBar = 0\<rparr>"

definition block_B :: block where "block_B = \<lparr>name = (str ''B''), startBar = 10\<rparr>"

definition example_song :: "nat \<Rightarrow> state" where
  "example_song g =
     initial_state
       \<lparr>patternLibrary :=
          \<lparr>own = [(str ''A'') \<mapsto> zero_grid 8 4, (str ''B'') \<mapsto> zero_grid 8 8], proto = None\<rparr>,
        songTimeline := [block_B, block_A],
        globalStep := g,
        transport := Started\<rparr>"

text \<open>
  Four states reached through the handlers: the initial grid saved as A; the initial
  grid saved under the name \<open>__proto__\<close>; a song of one block of two steps, playing;
  and a song whose only block is named \<open>constructor\<close>, playing.
\<close>

definition saved_A :: state where
  "saved_A =
     initial_state
       \<lparr>patternLibrary := js_set (patternLibrary initial_state) (str ''A'') (gridData initial_state),
        currentActivePattern := Some (str ''A'')\<rparr>"

definition saved_proto :: state where
  "saved_proto =
     initial_state
       \<lparr>patternLibrary := \<lparr>own = Map.empty, proto = Some (gridData initial_state)\<rparr>,
        currentActivePattern := Some (str ''__proto__'')\<rparr>"

definition short_song :: "nat \<Rightarrow> state" where
  "short_song g =
     \<lparr>drumKit = initial_kit, currentSteps = 2, gridData = zero_grid 8 2,
      patternLibrary = \<lparr>own = [(str ''A'') \<mapsto> zero_grid 8 2], proto = None\<rparr>,
      songTimeline = [\<lparr>name = (str ''A''), startBar = 0\<rparr>],
      currentActivePattern = Some (str ''A''), globalStep = g, transport = Started\<rparr>"

definition dangling_song :: state where
  "dangling_song =
     initial_state
       \<lparr>songTimeline := [\<lparr>name = (str ''constructor''), startBar = 0\<rparr>], transport := Started\<rparr>"

section \<open>Properties\<close>

subsection \<open>Auxiliary facts\<close>

lemma str_inject [simp]: "(str a = str b) = (a = b)"
  by (simp add: str_def inj_map_eq_map inj_on_def)

lemma str_Nil [simp]: "(str a = []) = (a = [])"
  by (simp add: str_def)

lemmas parseInt_eval =
  parseInt_def str_def is_space_def is_radix_digit_def digit_value_def radix_value_def Let_def

lemma gridData_saveCurrentToLibrary: "gridData (saveCurrentToLibrary s) = gridData s"
  by (simp add: saveCurrentToLibrary_def split: option.splits)

text \<open>The \<open>forEach\<close> of \<open>adjustGridSize\<close>, after the first \<open>k\<close> cells of the old row.\<close>

lemma resize_fold:
  "k \<le> length old \<Longrightarrow>
   fold (\<lambda>index newRow. if index < n then newRow[index := old ! index] else newRow)
     [0..<k] (replicate n 0) = take (min k n) old @ replicate (n - k) 0"
proof (induction k)
  case 0
  then show ?case by simp
next
  case (Suc k)
  then have k: "k < length old" by simp
  show ?case
  proof (cases "k < n")
    case True
    with k have "(take k old @ replicate (n - k) 0)[k := old ! k]
        = take (Suc k) old @ replicate (n - Suc k) 0"
      by (auto simp: list_eq_iff_nth_eq nth_list_update nth_append)
    with Suc True k show ?thesis by (simp add: min_def)
  next
    case False
    with Suc k show ?thesis by (simp add: min_def)
  qed
qed

lemma resize_row_eq: "resize_row n old = take n old @ replicate (n - length old) 0"
  using resize_fold [of "length old" old n] by (simp add: resize_row_def min_def)

lemma length_resize_row: "length (resize_row n old) = n"
  by (simp add: resize_row_eq)

lemma nth_resize_row:
  "i < n \<Longrightarrow> resize_row n old ! i = (if i < length old then old ! i else 0)"
  by (simp add: resize_row_eq nth_append)

lemma list2_eq: "length xs = 2 \<Longrightarrow> xs ! 0 = a \<Longrightarrow> xs ! 1 = b \<Longrightarrow> xs = [a, b]"
  by (simp add: list_eq_iff_nth_eq less_Suc_eq numeral_eq_Suc)

lemma list4_eq:
  "length xs = 4 \<Longrightarrow> xs ! 0 = a \<Longrightarrow> xs ! 1 = b \<Longrightarrow> xs ! 2 = c \<Longrightarrow> xs ! 3 = d
   \<Longrightarrow> xs = [a, b, c, d]"
  by (simp add: list_eq_iff_nth_eq less_Suc_eq numeral_eq_Suc)

lemma array_index_proto: "array_index (str ''__proto__'') = None"
  by (simp add: array_index_def is_digit_def str_def)

text \<open>A read after a write of the same key yields the written matrix, for every key.\<close>

lemma js_get_js_set_same: "js_get (js_set lib k v) k = Matrix v"
proof (cases "own lib k = None \<and> k = (str ''__proto__'')")
  case True
  then show ?thesis
    by (simp add: js_get_def js_set_def array_chain_get_def array_index_proto)
next
  case False
  then have "js_set lib k v = lib\<lparr>own := (own lib)(k \<mapsto> v)\<rparr>"
    unfolding js_set_def by (simp only: if_False)
  then show ?thesis by (simp add: js_get_def)
qed

lemma all_dropWhile: "(\<forall>x \<in> set (dropWhile P xs). P x) = (\<forall>x \<in> set xs. P x)"
  by (induction xs) auto

lemma trim_blank: "(trim text = []) = list_all is_space text"
  by (simp add: trim_def list_all_iff all_dropWhile)

lemma trim_id:
  assumes "k \<noteq> []" "\<not> is_space (hd k)" "\<not> is_space (last k)"
  shows "trim k = k"
proof -
  from assms have "dropWhile is_space k = k" by (cases k) simp_all
  moreover from assms have "dropWhile is_space (rev k) = rev k"
    by (cases "rev k") (simp_all add: hd_rev)
  ultimately show ?thesis by (simp add: trim_def)
qed

lemma tick_empty:
  "songTimeline s = [] \<Longrightarrow> tick s = Inr (s\<lparr>globalStep := globalStep s + 1\<rparr>, [])"
  by (simp add: tick_def)

lemma length_initial_kit: "length initial_kit = 8"
  by (simp add: initial_kit_def)

lemma initial_simps:
  "drumKit initial_state = initial_kit"
  "currentSteps initial_state = 16"
  "gridData initial_state = zero_grid 8 16"
  "patternLibrary initial_state = \<lparr>own = Map.empty, proto = None\<rparr>"
  "songTimeline initial_state = []"
  "currentActivePattern initial_state = None"
  "globalStep initial_state = 0"
  "transport initial_state = Stopped"
  by (simp_all add: initial_state_def resetGridData_def length_initial_kit)

lemma initial_state_eq:
  "initial_state = \<lparr>drumKit = initial_kit, currentSteps = 16, gridData = zero_grid 8 16,
        patternLibrary = \<lparr>own = Map.empty, proto = None\<rparr>,
        songTimeline = [], currentActivePattern = None, globalStep = 0,
        transport = Stopped\<rparr>"
  by (simp add: initial_state_def resetGridData_def length_initial_kit)

lemma resize_zero_row: "resize_row n (replicate k 0) = replicate n 0"
  by (rule nth_equalityI) (simp_all add: length_resize_row nth_resize_row)

lemma active_name_gridData [simp]: "active_name (s\<lparr>gridData := g\<rparr>) = active_name s"
  by (simp add: active_name_def)

lemma active_name_currentSteps [simp]: "active_name (s\<lparr>currentSteps := n\<rparr>) = active_name s"
  by (simp add: active_name_def)

lemma own_js_set:
  "own lib k \<noteq> None \<or> k \<noteq> str ''__proto__'' \<Longrightarrow> own (js_set lib k v) = (own lib)(k \<mapsto> v)"
  by (auto simp: js_set_def)

lemma stored_after:
  assumes "active_name s = Some k" and "k \<noteq> str ''__proto__''"
  shows "own (patternLibrary (saveCurrentToLibrary s)) k = Some (gridData (saveCurrentToLibrary s))"
    and "active_name (saveCurrentToLibrary s) = Some k"
  using assms by (simp_all add: saveCurrentToLibrary_def own_js_set active_name_def)

lemma aligned_saveCurrentToLibrary: "aligned (saveCurrentToLibrary s) = aligned s"
  by (simp add: aligned_def saveCurrentToLibrary_def split: option.splits)

text \<open>In an aligned state the cell that a click toggles exists.\<close>

lemma toggle_aligned:
  assumes al: "aligned s" and t: "toggle r step s = Inr s'"
  shows "s' = saveCurrentToLibrary
           (s\<lparr>gridData := (gridData s)[r := (gridData s ! r)
              [step := (if gridData s ! r ! step = 1 then 0 else 1)]]\<rparr>)"
    and "r < length (gridData s)" and "step < length (gridData s ! r)"
proof -
  from t have r: "r < length (drumKit s)" "step < currentSteps s"
    by (auto simp: toggle_def split: if_splits)
  with al show rg: "r < length (gridData s)" and len: "step < length (gridData s ! r)"
    by (auto simp: aligned_def list_all_length)
  with t r show "s' = saveCurrentToLibrary
           (s\<lparr>gridData := (gridData s)[r := (gridData s ! r)
              [step := (if gridData s ! r ! step = 1 then 0 else 1)]]\<rparr>)"
    by (simp add: toggle_def Let_def)
qed

lemma aligned_toggle:
  assumes al: "aligned s" and t: "toggle r step s = Inr s'"
  shows "aligned s'"
proof -
  note f = toggle_aligned [OF al t]
  have "aligned (s\<lparr>gridData := (gridData s)[r := (gridData s ! r)
              [step := (if gridData s ! r ! step = 1 then 0 else 1)]]\<rparr>)"
    using al f(2) by (auto simp: aligned_def list_all_length nth_list_update)
  then show ?thesis by (subst f(1)) (simp only: aligned_saveCurrentToLibrary)
qed

lemma currentSteps_saveCurrentToLibrary: "currentSteps (saveCurrentToLibrary s) = currentSteps s"
  by (simp add: saveCurrentToLibrary_def split: option.splits)

lemma stepsInput_change_accepted:
  assumes "parseInt text = Some n" "1 \<le> n" "n \<le> 64"
  shows "stepsInput_change text s = adjustGridSize (nat n) (s\<lparr>currentSteps := nat n\<rparr>)"
    and "currentSteps (stepsInput_change text s) = nat n"
    and "gridData (stepsInput_change text s) = map (resize_row (nat n)) (gridData s)"
  using assms
  by (simp_all add: stepsInput_change_def adjustGridSize_def gridData_saveCurrentToLibrary
      currentSteps_saveCurrentToLibrary)

lemma stepsInput_change_refused:
  assumes "parseInt text = None \<or> (\<exists>n. parseInt text = Some n \<and> (n < 1 \<or> 64 < n))"
  shows "stepsInput_change text s = s"
  using assms by (auto simp: stepsInput_change_def)

lemma saveAs_proto: "saveAs (str ''__proto__'') initial_state = Inr saved_proto"
  by (simp add: saveAs_def Let_def trim_def is_space_def str_def saved_proto_def js_set_def
      initial_simps)

lemma saveAs_A: "saveAs (str ''A'') initial_state = Inr saved_A"
  by (simp add: saveAs_def Let_def trim_def is_space_def str_def saved_A_def)

subsection \<open>An invariant of the reachable states\<close>

lemma aligned_good: "aligned s \<Longrightarrow> good_matrix (gridData s)"
  by (cases "gridData s") (auto simp: aligned_def good_matrix_def list_all_iff)

lemma library_ok_set: "library_ok lib \<Longrightarrow> good_matrix v \<Longrightarrow> library_ok (js_set lib k v)"
  by (auto simp: library_ok_def js_set_def)

lemma invariant_save:
  assumes "aligned s" "library_ok (patternLibrary s)"
  shows "invariant (saveCurrentToLibrary s)"
  using assms aligned_good [OF assms(1)]
  by (auto simp: invariant_def saveCurrentToLibrary_def aligned_def library_ok_set split: option.splits)

lemma invariant_initial: "invariant initial_state"
  by (simp add: invariant_def aligned_def library_ok_def initial_simps zero_grid_def initial_kit_def
      list_all_iff)

lemma invariant_addTrack: "invariant s \<Longrightarrow> addTrack answer s = Inr s' \<Longrightarrow> invariant s'"
  by (auto simp: invariant_def aligned_def addTrack_def Let_def split: option.splits if_splits)

lemma invariant_steps: "invariant s \<Longrightarrow> invariant (stepsInput_change text s)"
proof (cases "\<exists>n. parseInt text = Some n \<and> 0 < n \<and> n \<le> 64")
  case False
  assume "invariant s"
  with False show ?thesis by (auto simp: stepsInput_change_def split: option.splits)
next
  case True
  assume inv: "invariant s"
  from True obtain n where n: "parseInt text = Some n" "0 < n" "n \<le> 64" by blast
  let ?s = "s\<lparr>currentSteps := nat n, gridData := map (resize_row (nat n)) (gridData s)\<rparr>"
  have a: "aligned ?s" using inv n
    by (simp add: invariant_def aligned_def list_all_iff length_resize_row)
  have l: "library_ok (patternLibrary ?s)" using inv by (simp add: invariant_def)
  have "stepsInput_change text s = saveCurrentToLibrary ?s"
    using n by (simp add: stepsInput_change_def adjustGridSize_def)
  with invariant_save [OF a l] show ?thesis by simp
qed

lemma invariant_toggle: "invariant s \<Longrightarrow> toggle r step s = Inr s' \<Longrightarrow> invariant s'"
proof -
  assume inv: "invariant s" and t: "toggle r step s = Inr s'"
  from t have r: "r < length (drumKit s)" "step < currentSteps s"
    by (auto simp: toggle_def split: if_splits)
  with inv have rg: "r < length (gridData s)" and len: "length (gridData s ! r) = currentSteps s"
    by (auto simp: invariant_def aligned_def list_all_length)
  define v where "v = (if gridData s ! r ! step = 1 then 0 else (1::nat))"
  let ?s = "s\<lparr>gridData := (gridData s)[r := (gridData s ! r)[step := v]]\<rparr>"
  have s': "s' = saveCurrentToLibrary ?s"
    using t r rg len by (simp add: toggle_def Let_def v_def)
  have a: "aligned ?s" using inv len rg
    by (auto simp: invariant_def aligned_def list_all_length nth_list_update)
  have l: "library_ok (patternLibrary ?s)" using inv by (simp add: invariant_def)
  show ?thesis unfolding s' by (rule invariant_save [OF a l])
qed

lemma invariant_clear: "invariant s \<Longrightarrow> invariant (clear_button s)"
proof -
  assume inv: "invariant s"
  have a: "aligned (resetGridData s)" using inv
    by (simp add: invariant_def aligned_def resetGridData_def zero_grid_def list_all_iff)
  have l: "library_ok (patternLibrary (resetGridData s))" using inv
    by (simp add: invariant_def resetGridData_def)
  show ?thesis unfolding clear_button_def by (rule invariant_save [OF a l])
qed

lemma invariant_saveAs: "invariant s \<Longrightarrow> saveAs text s = Inr s' \<Longrightarrow> invariant s'"
  using aligned_good [of s]
  by (auto simp: invariant_def saveAs_def Let_def aligned_def library_ok_set split: if_splits)

lemma invariant_load: "invariant s \<Longrightarrow> loadPattern k s = Inr s' \<Longrightarrow> invariant s'"
proof -
  assume inv: "invariant s" and l: "loadPattern k s = Inr s'"
  from l obtain m where m: "own (patternLibrary s) k = Some m"
    by (auto simp: loadPattern_def split: option.splits)
  with inv have g: "good_matrix m" by (auto simp: invariant_def library_ok_def)
  then obtain r0 rest where m': "m = r0 # rest" by (cases m) (auto simp: good_matrix_def)
  from g m' have rows: "1 \<le> length r0" "\<forall>i < length m. length (m ! i) = length r0"
    by (auto simp: good_matrix_def list_all_length)
  have s': "s' = s\<lparr>currentActivePattern := Some k, currentSteps := length r0,
       gridData := map (\<lambda>index. if index < length m then m ! index else replicate (length r0) 0)
                      [0..<length (drumKit s)]\<rparr>"
    using l m unfolding m' by (auto simp: loadPattern_def Let_def)
  show ?thesis
    unfolding s' using inv rows
    by (auto simp: invariant_def aligned_def list_all_iff)
qed

lemma invariant_place: "invariant s \<Longrightarrow> place bar text s = Inr s' \<Longrightarrow> invariant s'"
  by (auto simp: invariant_def aligned_def place_def Let_def split: if_splits)

lemma invariant_remove: "invariant s \<Longrightarrow> invariant (remove_block bar s)"
  by (simp add: invariant_def aligned_def remove_block_def)

lemma invariant_play: "invariant s \<Longrightarrow> invariant (play_button s)"
  by (simp add: invariant_def aligned_def play_button_def stopPlayback_def)

lemma tick_frame:
  assumes "tick s = Inr (s', ns)"
  shows "drumKit s' = drumKit s" "currentSteps s' = currentSteps s" "gridData s' = gridData s"
    "patternLibrary s' = patternLibrary s" "currentActivePattern s' = currentActivePattern s"
    "songTimeline s' = sort_key startBar (songTimeline s)"
  using assms
  by (auto simp: tick_def Let_def stopPlayback_def split: sum.splits option.splits prod.splits if_splits)

lemma invariant_tick: "invariant s \<Longrightarrow> tick s = Inr (s', ns) \<Longrightarrow> invariant s'"
  by (simp add: invariant_def aligned_def tick_frame)

lemma reachable_invariant: "reachable s \<Longrightarrow> invariant s"
proof (induction rule: reachable.induct)
  case start
  show ?case by (rule invariant_initial)
qed (auto intro: invariant_addTrack invariant_steps invariant_toggle invariant_clear
      invariant_saveAs invariant_load invariant_place invariant_remove invariant_play
      invariant_tick)

text \<open>Every matrix stored in a reachable library has a first row with at least one step.\<close>

lemma reachable_library_rows:
  assumes "reachable s" and "own (patternLibrary s) k = Some m"
  shows "m \<noteq> [] \<and> 1 \<le> length (hd m)"
  using reachable_invariant [OF assms(1)] assms(2)
  by (auto simp: invariant_def library_ok_def good_matrix_def)

subsection \<open>Scheduler concatenation\<close>

lemma resolves_step:
  assumes "resolves lib b"
  shows "truthy (js_get lib (name b))"
    and "first_row_length (js_get lib (name b)) = Inr (Fin (block_length lib b))"
  using assms
  by (auto simp: resolves_def block_length_def split: jsval.splits list.splits)

lemma offset_simps: "offset lib [] = 0" "offset lib (b # bs) = block_length lib b + offset lib bs"
  "offset lib (xs @ ys) = offset lib xs + offset lib ys"
  by (simp_all add: offset_def)

lemma find_block_window:
  assumes "list_all (resolves lib) (pre @ [e])"
    and "a + offset lib pre \<le> g" and "g < a + offset lib pre + block_length lib e"
  shows "find_block lib g (pre @ e # post) (Fin a)
           = Inr (Some (e, g - (a + offset lib pre)), Fin (a + offset lib pre))"
  using assms
proof (induction pre arbitrary: a)
  case Nil
  then show ?case by (simp add: resolves_step offset_simps)
next
  case (Cons b pre)
  from Cons.prems have b: "resolves lib b" and rest: "list_all (resolves lib) (pre @ [e])"
    by simp_all
  from Cons.prems(2) have out: "\<not> g < a + block_length lib b"
    by (simp add: offset_simps)
  have "find_block lib g ((b # pre) @ e # post) (Fin a)
          = find_block lib g (pre @ e # post) (Fin (a + block_length lib b))"
    using b out by (simp add: resolves_step)
  also have "\<dots> = Inr (Some (e, g - (a + block_length lib b + offset lib pre)),
                      Fin (a + block_length lib b + offset lib pre))"
    using Cons.prems(2,3) by (intro Cons.IH [OF rest]) (simp_all add: offset_simps)
  finally show ?case by (simp add: offset_simps add.assoc)
qed

lemma find_block_past:
  assumes "list_all (resolves lib) bs" and "a + offset lib bs \<le> g"
  shows "find_block lib g bs (Fin a) = Inr (None, Fin (a + offset lib bs))"
  using assms
proof (induction bs arbitrary: a)
  case Nil
  then show ?case by (simp add: offset_simps)
next
  case (Cons b bs)
  from Cons.prems have b: "resolves lib b" and rest: "list_all (resolves lib) bs"
    by simp_all
  from Cons.prems(2) have out: "\<not> g < a + block_length lib b"
    by (simp add: offset_simps)
  have "find_block lib g (b # bs) (Fin a) = find_block lib g bs (Fin (a + block_length lib b))"
    using b out by (simp add: resolves_step)
  also have "\<dots> = Inr (None, Fin (a + block_length lib b + offset lib bs))"
    using Cons.prems(2) by (intro Cons.IH [OF rest]) (simp add: offset_simps)
  finally show ?case by (simp add: offset_simps add.assoc)
qed

text \<open>
  Claim C1. Let every block of the timeline resolve in the library. If the timeline,
  sorted by bar, is \<open>pre @ e # post\<close> and the step counter lies in the window of
  \<open>e\<close>, from the offset of \<open>pre\<close> up to that offset plus the length of \<open>e\<close>, then
  the scan finds \<open>e\<close> with the local step \<open>globalStep - offset\<close>, and the tick
  triggers the notes of \<open>e\<close> at that step and advances the counter by one. If the
  timeline is not empty and the counter has reached the total length, the tick triggers
  nothing and stops the transport. Bars only order the blocks. (For a timeline that is already sorted,
  \<open>sort_key\<close> returns it unchanged.) The witness is the example of A and B.
\<close>

theorem scheduler_concatenation:
  assumes res: "list_all (resolves (patternLibrary s)) (songTimeline s)"
  shows "(\<forall>pre e post.
            sort_key startBar (songTimeline s) = pre @ e # post
            \<and> offset (patternLibrary s) pre \<le> globalStep s
            \<and> globalStep s < offset (patternLibrary s) pre + block_length (patternLibrary s) e
          \<longrightarrow> find_block (patternLibrary s) (globalStep s) (sort_key startBar (songTimeline s)) (Fin 0)
                = Inr (Some (e, globalStep s - offset (patternLibrary s) pre),
                       Fin (offset (patternLibrary s) pre))
              \<and> tick s = Inr (s\<lparr>songTimeline := sort_key startBar (songTimeline s),
                                 globalStep := globalStep s + 1\<rparr>,
                               triggered (drumKit s) (js_get (patternLibrary s) (name e))
                                 (globalStep s - offset (patternLibrary s) pre)))
     \<and> (songTimeline s \<noteq> []
          \<and> offset (patternLibrary s) (sort_key startBar (songTimeline s)) \<le> globalStep s
          \<longrightarrow> (\<exists>s'. tick s = Inr (s', []) \<and> transport s' = Stopped))"
proof (intro conjI allI impI)
  fix pre e post
  assume h: "sort_key startBar (songTimeline s) = pre @ e # post
            \<and> offset (patternLibrary s) pre \<le> globalStep s
            \<and> globalStep s < offset (patternLibrary s) pre + block_length (patternLibrary s) e"
  have "list_all (resolves (patternLibrary s)) (sort_key startBar (songTimeline s))"
    using res by (simp add: list_all_iff)
  with h have r: "list_all (resolves (patternLibrary s)) (pre @ [e])" by simp
  from find_block_window [OF r, of 0 "globalStep s" post] h
  have fb: "find_block (patternLibrary s) (globalStep s) (pre @ e # post) (Fin 0)
                = Inr (Some (e, globalStep s - offset (patternLibrary s) pre),
                       Fin (offset (patternLibrary s) pre))" by simp
  with h show "find_block (patternLibrary s) (globalStep s) (sort_key startBar (songTimeline s)) (Fin 0)
                = Inr (Some (e, globalStep s - offset (patternLibrary s) pre),
                       Fin (offset (patternLibrary s) pre))" by simp
  from fb h show "tick s = Inr (s\<lparr>songTimeline := sort_key startBar (songTimeline s),
                                 globalStep := globalStep s + 1\<rparr>,
                               triggered (drumKit s) (js_get (patternLibrary s) (name e))
                                 (globalStep s - offset (patternLibrary s) pre))"
    by (simp add: tick_def)
next
  assume h: "songTimeline s \<noteq> []
          \<and> offset (patternLibrary s) (sort_key startBar (songTimeline s)) \<le> globalStep s"
  have r: "list_all (resolves (patternLibrary s)) (sort_key startBar (songTimeline s))"
    using res by (simp add: list_all_iff)
  from find_block_past [OF r, of 0 "globalStep s"] h
  have fb: "find_block (patternLibrary s) (globalStep s) (sort_key startBar (songTimeline s)) (Fin 0)
     = Inr (None, Fin (offset (patternLibrary s) (sort_key startBar (songTimeline s))))" by simp
  have ne: "sort_key startBar (songTimeline s) \<noteq> []"
    using h by (metis length_sort length_0_conv)
  show "\<exists>s'. tick s = Inr (s', []) \<and> transport s' = Stopped"
    using fb h ne by (simp add: tick_def stopPlayback_def)
qed

lemma example_song_simps:
  "patternLibrary (example_song g) = \<lparr>own = [(str ''A'') \<mapsto> zero_grid 8 4, (str ''B'') \<mapsto> zero_grid 8 8], proto = None\<rparr>"
  "songTimeline (example_song g) = [block_B, block_A]"
  "globalStep (example_song g) = g"
  "transport (example_song g) = Started"
  by (simp_all add: example_song_def)

lemma example_sorted: "sort_key startBar [block_B, block_A] = [block_A, block_B]"
  by (simp add: block_A_def block_B_def)

lemma example_lengths:
  "resolves (patternLibrary (example_song g)) block_A"
  "resolves (patternLibrary (example_song g)) block_B"
  "block_length (patternLibrary (example_song g)) block_A = 4"
  "block_length (patternLibrary (example_song g)) block_B = 8"
  by (simp_all add: example_song_simps resolves_def block_length_def js_get_def
      block_A_def block_B_def zero_grid_def numeral_eq_Suc)

theorem scheduler_concatenation_witness:
  "map (\<lambda>g. find_block (patternLibrary (example_song g)) g
               (sort_key startBar (songTimeline (example_song g))) (Fin 0)) [0..<12]
     = map (\<lambda>g. Inr (Some (block_A, g), Fin 0)) [0..<4]
       @ map (\<lambda>g. Inr (Some (block_B, g - 4), Fin 4)) [4..<12]
   \<and> (\<exists>s'. tick (example_song 12) = Inr (s', []) \<and> transport s' = Stopped)"
proof -
  have res: "list_all (resolves (patternLibrary (example_song g))) (songTimeline (example_song g))"
    for g using example_lengths(1,2) [of g] by (simp add: example_song_simps(2))
  have srt: "sort_key startBar (songTimeline (example_song g)) = [block_A, block_B]" for g
    by (simp only: example_song_simps(2) example_sorted)
  have off: "offset (patternLibrary (example_song g)) [] = 0"
    "offset (patternLibrary (example_song g)) [block_A] = 4"
    "offset (patternLibrary (example_song g)) [block_A, block_B] = 12" for g
    by (simp_all add: offset_simps example_lengths)
  have inA: "find_block (patternLibrary (example_song g)) g
               (sort_key startBar (songTimeline (example_song g))) (Fin 0)
             = Inr (Some (block_A, g), Fin 0)" if "g < 4" for g
    using scheduler_concatenation [OF res, of g, THEN conjunct1, rule_format,
        of "[]" block_A "[block_B]", unfolded srt] that
    by (simp add: srt off example_lengths example_song_simps(3))
  have inB: "find_block (patternLibrary (example_song g)) g
               (sort_key startBar (songTimeline (example_song g))) (Fin 0)
             = Inr (Some (block_B, g - 4), Fin 4)" if "4 \<le> g" "g < 12" for g
    using scheduler_concatenation [OF res, of g, THEN conjunct1, rule_format,
        of "[block_A]" block_B "[]", unfolded srt] that
    by (simp add: srt off example_lengths example_song_simps(3))
  have stop: "\<exists>s'. tick (example_song 12) = Inr (s', []) \<and> transport s' = Stopped"
    using scheduler_concatenation [OF res, of 12, THEN conjunct2, unfolded srt]
    by (simp add: off example_song_simps(2,3))
  have split: "[0..<12] = [0..<4] @ [4..<12]"
    using upt_add_eq_append [of 0 4 8] by simp
  have "map (\<lambda>g. find_block (patternLibrary (example_song g)) g
               (sort_key startBar (songTimeline (example_song g))) (Fin 0)) [0..<12]
     = map (\<lambda>g. Inr (Some (block_A, g), Fin 0)) [0..<4]
       @ map (\<lambda>g. Inr (Some (block_B, g - 4), Fin 4)) [4..<12]"
    unfolding split map_append
  proof (intro arg_cong2 [of _ _ _ _ "(@)"] map_cong refl)
    fix g assume "g \<in> set [0..<4]"
    then have "g < 4" by (simp only: set_upt atLeastLessThan_iff)
    then show "find_block (patternLibrary (example_song g)) g
               (sort_key startBar (songTimeline (example_song g))) (Fin 0)
             = Inr (Some (block_A, g), Fin 0)" by (rule inA)
  next
    fix g assume "g \<in> set [4..<12]"
    then have "4 \<le> g" "g < 12" by (simp_all only: set_upt atLeastLessThan_iff)
    then show "find_block (patternLibrary (example_song g)) g
               (sort_key startBar (songTimeline (example_song g))) (Fin 0)
             = Inr (Some (block_B, g - 4), Fin 4)" by (rule inB)
  qed
  with stop show ?thesis by simp
qed

subsection \<open>The step counter when the transport stops\<close>

text \<open>
  The stop control leaves the counter at 0; a tick that keeps the transport started
  advances the counter by one; a tick that stops the transport leaves the counter at 1,
  since the callback increments it after \<open>stopPlayback\<close> has reset it.
\<close>

lemma stopPlayback_counter: "globalStep (stopPlayback s) = 0 \<and> transport (stopPlayback s) = Stopped"
  by (simp add: stopPlayback_def)

lemma tick_stop_counter:
  assumes "tick s = Inr (s', ns)" "transport s = Started" "transport s' = Stopped"
  shows "globalStep s' = 1"
  using assms
  by (auto simp: tick_def Let_def stopPlayback_def split: sum.splits option.splits prod.splits if_splits)

lemma reachable_short_song: "reachable (short_song 0)"
proof -
  let ?s1 = "stepsInput_change (str ''2'') initial_state"
  have two: "parseInt (str ''2'') = Some 2" by (simp add: parseInt_eval)
  have s1: "?s1 = initial_state\<lparr>currentSteps := 2, gridData := zero_grid 8 2\<rparr>"
    by (simp add: stepsInput_change_def two adjustGridSize_def saveCurrentToLibrary_def
        active_name_def initial_simps zero_grid_def resize_zero_row)
  let ?s2 = "?s1\<lparr>patternLibrary := \<lparr>own = [(str ''A'') \<mapsto> zero_grid 8 2], proto = None\<rparr>,
                 currentActivePattern := Some (str ''A'')\<rparr>"
  have s2: "saveAs (str ''A'') ?s1 = Inr ?s2"
    unfolding s1 by (simp add: saveAs_def Let_def trim_def is_space_def str_def js_set_def initial_simps)
  let ?s3 = "?s2\<lparr>songTimeline := [\<lparr>name = (str ''A''), startBar = 0\<rparr>]\<rparr>"
  have s3: "place 0 (str ''A'') ?s2 = Inr ?s3"
    unfolding s1 by (simp add: place_def Let_def trim_def is_space_def str_def js_get_def initial_simps)
  have s4: "play_button ?s3 = short_song 0"
    unfolding s1 by (simp add: play_button_def short_song_def initial_state_eq)
  have "reachable ?s1" by (rule reachable.steps [OF reachable.start])
  then have "reachable ?s2" using s2 by (rule reachable.save)
  then have "reachable ?s3" using s3 by (rule reachable.timeline_click)
  then have "reachable (play_button ?s3)" by (rule reachable.play)
  then show ?thesis by (simp only: s4)
qed

lemma short_song_ticks:
  "tick (short_song 0) = Inr (short_song 1, [])"
  "tick (short_song 1) = Inr (short_song 2, [])"
  "tick (short_song 2) = Inr ((short_song 1)\<lparr>transport := Stopped\<rparr>, [])"
  by (simp_all add: tick_def short_song_def js_get_def zero_grid_def triggered_def
      stopPlayback_def numeral_eq_Suc)

text \<open>
  Claim C2 (fails on the code). From the initial state: step count 2, save as A, click
  bar 0, play. The third pulse of the clock finds the counter past the only block and
  stops the transport; the state it leaves is reachable, stopped, and has the counter
  at 1, not 0.
\<close>

theorem stop_inside_tick_leaves_counter_at_one:
  "reachable (short_song 0)
   \<and> transport (short_song 0) = Started
   \<and> run_ticks 3 (short_song 0) = Inr ((short_song 1)\<lparr>transport := Stopped\<rparr>)
   \<and> reachable ((short_song 1)\<lparr>transport := Stopped\<rparr>)
   \<and> transport ((short_song 1)\<lparr>transport := Stopped\<rparr>) = Stopped
   \<and> globalStep ((short_song 1)\<lparr>transport := Stopped\<rparr>) = 1"
proof -
  have st: "transport (short_song g) = Started" for g by (simp add: short_song_def)
  have r0: "reachable (short_song 0)" by (rule reachable_short_song)
  then have r1: "reachable (short_song 1)"
    using st short_song_ticks(1) by (rule reachable.clock)
  then have r2: "reachable (short_song 2)"
    using st short_song_ticks(2) by (rule reachable.clock)
  then have r3: "reachable ((short_song 1)\<lparr>transport := Stopped\<rparr>)"
    using st short_song_ticks(3) by (rule reachable.clock)
  have run: "run_ticks 3 (short_song 0) = Inr ((short_song 1)\<lparr>transport := Stopped\<rparr>)"
    using short_song_ticks [unfolded One_nat_def] st by (simp add: numeral_3_eq_3)
  show ?thesis using r0 r3 run st by (simp add: short_song_def)
qed

subsection \<open>Auto-save\<close>

text \<open>
  Claim C3, amended. Let a pattern \<open>k\<close> other than the key \<open>__proto__\<close> be
  active and the grid be aligned with the kit and the step count. After every toggle,
  every resize (by \<open>adjustGridSize\<close> and through the step-count input) and every
  clear, the entry stored in the library under \<open>k\<close> is the grid. The add-piece
  handler appends the zero row to the grid without saving: it leaves the library as it
  was.
\<close>

theorem auto_save_consistency:
  assumes act: "active_name s = Some k" and k: "k \<noteq> str ''__proto__''" and al: "aligned s"
  shows "(\<forall>r step s'. toggle r step s = Inr s' \<longrightarrow>
            own (patternLibrary s') k = Some (gridData s') \<and> active_name s' = Some k
            \<and> aligned s')
     \<and> own (patternLibrary (adjustGridSize n s)) k = Some (gridData (adjustGridSize n s))
     \<and> (\<forall>text m. parseInt text = Some m \<and> 1 \<le> m \<and> m \<le> 64 \<longrightarrow>
            own (patternLibrary (stepsInput_change text s)) k
              = Some (gridData (stepsInput_change text s)))
     \<and> own (patternLibrary (clear_button s)) k = Some (gridData (clear_button s))
     \<and> (\<forall>answer s'. addTrack answer s = Inr s' \<longrightarrow>
            patternLibrary s' = patternLibrary s
            \<and> gridData s' = gridData s @ [replicate (currentSteps s) 0]
            \<and> active_name s' = Some k)"
proof (intro conjI allI impI)
  fix r step s'
  assume t: "toggle r step s = Inr s'"
  from toggle_aligned(1) [OF al t]
  obtain g where s': "s' = saveCurrentToLibrary (s\<lparr>gridData := g\<rparr>)" by blast
  have a: "active_name (s\<lparr>gridData := g\<rparr>) = Some k" using act by simp
  show "own (patternLibrary s') k = Some (gridData s')"
    unfolding s' by (rule stored_after(1) [OF a k])
  show "active_name s' = Some k"
    unfolding s' by (rule stored_after(2) [OF a k])
  show "aligned s'" using al t by (rule aligned_toggle)
next
  have a: "active_name (s\<lparr>gridData := map (resize_row n) (gridData s)\<rparr>) = Some k"
    using act by simp
  show "own (patternLibrary (adjustGridSize n s)) k = Some (gridData (adjustGridSize n s))"
    unfolding adjustGridSize_def by (rule stored_after(1) [OF a k])
next
  fix field and m :: int
  assume m: "parseInt field = Some m \<and> 1 \<le> m \<and> m \<le> 64"
  let ?s = "s\<lparr>currentSteps := nat m\<rparr>"
  have a: "active_name (?s\<lparr>gridData := map (resize_row (nat m)) (gridData ?s)\<rparr>) = Some k"
    using act by simp
  have "stepsInput_change field s = adjustGridSize (nat m) ?s"
    using m by (intro stepsInput_change_accepted(1)) simp_all
  then show "own (patternLibrary (stepsInput_change field s)) k
              = Some (gridData (stepsInput_change field s))"
    unfolding adjustGridSize_def using stored_after(1) [OF a k] by simp
next
  have a: "active_name (resetGridData s) = Some k"
    using act by (simp add: resetGridData_def)
  show "own (patternLibrary (clear_button s)) k = Some (gridData (clear_button s))"
    unfolding clear_button_def by (rule stored_after(1) [OF a k])
next
  fix answer s'
  assume "addTrack answer s = Inr s'"
  then have s': "s' = s\<lparr>drumKit := drumKit s',
      gridData := gridData s @ [replicate (currentSteps s) 0]\<rparr>"
    by (auto simp: addTrack_def Let_def split: option.splits if_splits)
  show "patternLibrary s' = patternLibrary s" by (subst s') simp
  show "gridData s' = gridData s @ [replicate (currentSteps s) 0]" by (subst s') simp
  show "active_name s' = Some k" using act by (subst s') (simp add: active_name_def)
qed

theorem auto_save_consistency_witness:
  "\<exists>s1 s2. saveAs (str ''A'') initial_state = Inr s1
     \<and> toggle 0 3 s1 = Inr s2
     \<and> gridData s2 ! 0 ! 3 = 1
     \<and> own (patternLibrary s2) (str ''A'') = Some (gridData s2)
     \<and> own (patternLibrary (clear_button s2)) (str ''A'') = Some (gridData (clear_button s2))
     \<and> own (patternLibrary (stepsInput_change (str ''7'') s2)) (str ''A'')
         = Some (gridData (stepsInput_change (str ''7'') s2))"
proof -
  have act: "active_name saved_A = Some (str ''A'')"
    by (simp add: saved_A_def active_name_def)
  have k: "str ''A'' \<noteq> str ''__proto__''" by simp
  have al: "aligned saved_A"
    using invariant_initial by (simp add: invariant_def aligned_def saved_A_def)
  have seven: "parseInt (str ''7'') = Some 7" by (simp add: parseInt_eval)
  have "\<exists>s2. toggle 0 3 saved_A = Inr s2 \<and> gridData s2 ! 0 ! 3 = 1"
    by (simp add: toggle_def saved_A_def initial_simps Let_def zero_grid_def
        gridData_saveCurrentToLibrary initial_kit_def)
  then obtain s2 where s2: "toggle 0 3 saved_A = Inr s2" "gridData s2 ! 0 ! 3 = 1" by blast
  from auto_save_consistency [OF act k al, THEN conjunct1, rule_format, OF s2(1)]
  have a: "own (patternLibrary s2) (str ''A'') = Some (gridData s2)"
    and act2: "active_name s2 = Some (str ''A'')" and al2: "aligned s2" by simp_all
  note t = auto_save_consistency [OF act2 k al2, of 0]
  from t have c: "own (patternLibrary (clear_button s2)) (str ''A'')
      = Some (gridData (clear_button s2))"
    by blast
  from t seven have d: "own (patternLibrary (stepsInput_change (str ''7'') s2)) (str ''A'')
         = Some (gridData (stepsInput_change (str ''7'') s2))"
    by simp
  show ?thesis using saveAs_A s2 a c d by blast
qed

text \<open>
  The claim as stated fails for the row appended with a new track: after saving A and
  adding a track, A is still active, the stored matrix has 8 rows and the grid has 9.
  It also fails for the active name \<open>__proto__\<close>, under which the library object
  holds no entry: after saving under that name and toggling a cell, the name is active
  and nothing is stored under it.
\<close>

theorem auto_save_addTrack_counterexample:
  "(\<exists>s1 s2. saveAs (str ''A'') initial_state = Inr s1
     \<and> addTrack (Some (str ''Cowbell'')) s1 = Inr s2
     \<and> currentActivePattern s2 = Some (str ''A'')
     \<and> own (patternLibrary s2) (str ''A'') = Some (zero_grid 8 16)
     \<and> gridData s2 = zero_grid 9 16
     \<and> own (patternLibrary s2) (str ''A'') \<noteq> Some (gridData s2))
   \<and> (\<exists>s1 s2. saveAs (str ''__proto__'') initial_state = Inr s1
     \<and> toggle 0 3 s1 = Inr s2
     \<and> currentActivePattern s2 = Some (str ''__proto__'')
     \<and> own (patternLibrary s2) (str ''__proto__'') = None)"
proof -
  let ?s2 = "saved_A\<lparr>drumKit := drumKit saved_A
          @ [\<lparr>drum_name = str ''Cowbell'', drum_note = ''C2'', drum_color = ''#ffffff''\<rparr>],
        gridData := gridData saved_A @ [replicate 16 0]\<rparr>"
  have add: "addTrack (Some (str ''Cowbell'')) saved_A = Inr ?s2"
    by (simp add: addTrack_def saved_A_def initial_simps initial_kit_def NOTE_POOL_def)
  have lib: "own (patternLibrary ?s2) (str ''A'') = Some (zero_grid 8 16)"
    by (simp add: saved_A_def own_js_set initial_simps)
  have grid: "gridData ?s2 = zero_grid 9 16"
    using replicate_Suc [of 8 "replicate 16 (0::nat)"]
    by (simp add: saved_A_def initial_simps zero_grid_def replicate_append_same)
  have ne: "zero_grid 8 16 \<noteq> zero_grid 9 16"
  proof
    assume "zero_grid 8 16 = zero_grid 9 16"
    then have "length (zero_grid 8 16) = length (zero_grid 9 16)" by simp
    then show False by (simp add: zero_grid_def)
  qed
  have act: "currentActivePattern ?s2 = Some (str ''A'')" by (simp add: saved_A_def)
  have first: "\<exists>s1 s2. saveAs (str ''A'') initial_state = Inr s1
     \<and> addTrack (Some (str ''Cowbell'')) s1 = Inr s2
     \<and> currentActivePattern s2 = Some (str ''A'')
     \<and> own (patternLibrary s2) (str ''A'') = Some (zero_grid 8 16)
     \<and> gridData s2 = zero_grid 9 16
     \<and> own (patternLibrary s2) (str ''A'') \<noteq> Some (gridData s2)"
    using saveAs_A add lib grid ne act by (intro exI [of _ saved_A] exI [of _ ?s2]) simp
  have p1: "toggle 0 3 saved_proto
      = Inr (saveCurrentToLibrary (saved_proto\<lparr>gridData :=
               (gridData saved_proto)[0 := (gridData saved_proto ! 0)[3 := 1]]\<rparr>))"
    by (simp add: toggle_def saved_proto_def initial_simps Let_def zero_grid_def initial_kit_def)
  have p2: "currentActivePattern (saveCurrentToLibrary (saved_proto\<lparr>gridData := g\<rparr>))
      = Some (str ''__proto__'')" for g
    by (simp add: saveCurrentToLibrary_def active_name_def saved_proto_def)
  have p3: "own (patternLibrary (saveCurrentToLibrary (saved_proto\<lparr>gridData := g\<rparr>)))
      (str ''__proto__'') = None" for g
    by (simp add: saveCurrentToLibrary_def active_name_def saved_proto_def js_set_def
        initial_simps)
  have second: "\<exists>s1 s2. saveAs (str ''__proto__'') initial_state = Inr s1
     \<and> toggle 0 3 s1 = Inr s2
     \<and> currentActivePattern s2 = Some (str ''__proto__'')
     \<and> own (patternLibrary s2) (str ''__proto__'') = None"
    using saveAs_proto p1 p2 p3 by blast
  from first second show ?thesis by (rule conjI)
qed

subsection \<open>Capacity of the kit\<close>

lemma find_first_unused:
  assumes "distinct xs" "k < length xs"
  shows "find (\<lambda>n. n \<notin> set (take k xs)) xs = Some (xs ! k)"
proof -
  have a: "xs ! k \<notin> set (take k xs)"
    using assms by (auto simp: in_set_conv_nth nth_eq_iff_index_eq)
  have b: "\<forall>j < k. xs ! j \<in> set (take k xs)"
    using assms by (auto simp: in_set_conv_nth)
  show ?thesis
    unfolding find_Some_iff using assms a b by (intro exI [of _ k]) simp
qed

lemma distinct_NOTE_POOL: "distinct NOTE_POOL"
  by (simp add: NOTE_POOL_def)

lemma length_NOTE_POOL: "length NOTE_POOL = 24"
  by (simp add: NOTE_POOL_def)

lemma addTrack_next:
  assumes "set (map drum_note (drumKit s)) = set (take k NOTE_POOL)" "k < 24" "nm \<noteq> []"
  shows "addTrack (Some nm) s =
     Inr (s\<lparr>drumKit := drumKit s @ [\<lparr>drum_name = nm, drum_note = NOTE_POOL ! k, drum_color = ''#ffffff''\<rparr>],
            gridData := gridData s @ [replicate (currentSteps s) 0]\<rparr>)"
proof -
  have "find (\<lambda>n. n \<notin> set (map drum_note (drumKit s))) NOTE_POOL = Some (NOTE_POOL ! k)"
    using assms find_first_unused [OF distinct_NOTE_POOL, of k] by (simp add: length_NOTE_POOL)
  with assms(3) show ?thesis by (simp add: addTrack_def)
qed

lemma addTrack_full:
  assumes "set (map drum_note (drumKit s)) = set NOTE_POOL" "nm \<noteq> []"
  shows "addTrack (Some nm) s = Inl CapacityExceeded"
proof -
  have "find (\<lambda>n. n \<notin> set (map drum_note (drumKit s))) NOTE_POOL = None"
    using assms(1) by (simp add: find_None_iff)
  with assms(2) show ?thesis by (simp add: addTrack_def)
qed

lemma take_Suc_set: "k < length xs \<Longrightarrow> set (take (Suc k) xs) = insert (xs ! k) (set (take k xs))"
  by (simp add: take_Suc_conv_app_nth)

lemma addTracks_fill:
  assumes "set (map drum_note (drumKit s)) = set (take k NOTE_POOL)"
    and "k + length answers \<le> 24"
    and "list_all (\<lambda>a. a \<noteq> None \<and> a \<noteq> Some []) answers"
  shows "\<exists>s'. addTracks answers s = Inr s'
     \<and> map drum_note (drumKit s') = map drum_note (drumKit s) @ take (length answers) (drop k NOTE_POOL)
     \<and> map drum_name (drumKit s') = map drum_name (drumKit s) @ map the answers
     \<and> gridData s' = gridData s @ replicate (length answers) (replicate (currentSteps s) 0)
     \<and> currentSteps s' = currentSteps s"
  using assms
proof (induction answers arbitrary: s k)
  case Nil
  then show ?case by simp
next
  case (Cons a as)
  from Cons.prems(3) obtain nm where a: "a = Some nm" "nm \<noteq> []" by (cases a) auto
  from Cons.prems(2) have k: "k < 24" by simp
  let ?s1 = "s\<lparr>drumKit := drumKit s @ [\<lparr>drum_name = nm, drum_note = NOTE_POOL ! k, drum_color = ''#ffffff''\<rparr>],
            gridData := gridData s @ [replicate (currentSteps s) 0]\<rparr>"
  have step: "addTrack a s = Inr ?s1"
    using addTrack_next [OF Cons.prems(1) k a(2)] a(1) by simp
  have used: "set (map drum_note (drumKit ?s1)) = set (take (Suc k) NOTE_POOL)"
    using Cons.prems(1) k by (simp add: take_Suc_set length_NOTE_POOL)
  from Cons.IH [OF used] Cons.prems(2,3)
  obtain s' where s': "addTracks as ?s1 = Inr s'"
     "map drum_note (drumKit s') = map drum_note (drumKit ?s1) @ take (length as) (drop (Suc k) NOTE_POOL)"
     "map drum_name (drumKit s') = map drum_name (drumKit ?s1) @ map the as"
     "gridData s' = gridData ?s1 @ replicate (length as) (replicate (currentSteps ?s1) 0)"
     "currentSteps s' = currentSteps ?s1"
    by auto
  have d: "take (length (a # as)) (drop k NOTE_POOL) = NOTE_POOL ! k # take (length as) (drop (Suc k) NOTE_POOL)"
    using k by (simp add: length_NOTE_POOL Cons_nth_drop_Suc [symmetric])
  show ?case
    using step s' d a(1) by (simp add: replicate_append_same)
qed

lemma initial_used: "set (map drum_note (drumKit initial_state)) = set (take 8 NOTE_POOL)"
  by (auto simp: initial_state_def resetGridData_def initial_kit_def NOTE_POOL_def)

lemma addTracks_append:
  "addTracks (xs @ ys) s = (case addTracks xs s of Inl e \<Rightarrow> Inl e | Inr s' \<Rightarrow> addTracks ys s')"
  by (induction xs arbitrary: s) (simp_all split: sum.splits)

text \<open>Sixteen accepted presses from the initial state use up the pool.\<close>

lemma addTracks_exhaust:
  assumes "list_all (\<lambda>a. a \<noteq> None \<and> a \<noteq> Some []) answers" and "length answers = 16"
  shows "\<exists>s'. addTracks answers initial_state = Inr s'
     \<and> map drum_note (drumKit s') = map drum_note initial_kit @ drop 8 NOTE_POOL
     \<and> map drum_name (drumKit s') = map drum_name initial_kit @ map the answers
     \<and> length (gridData s') = 24"
proof -
  have k: "8 + length answers \<le> 24" using assms(2) by simp
  from addTracks_fill [OF initial_used k assms(1)]
  obtain s' where s': "addTracks answers initial_state = Inr s'"
     "map drum_note (drumKit s')
        = map drum_note (drumKit initial_state) @ take (length answers) (drop 8 NOTE_POOL)"
     "map drum_name (drumKit s') = map drum_name (drumKit initial_state) @ map the answers"
     "gridData s' = gridData initial_state
        @ replicate (length answers) (replicate (currentSteps initial_state) 0)"
    by blast
  have nts: "map drum_note (drumKit s') = map drum_note initial_kit @ drop 8 NOTE_POOL"
    using s'(2) assms(2) by (simp add: initial_simps length_NOTE_POOL)
  have names: "map drum_name (drumKit s') = map drum_name initial_kit @ map the answers"
    using s'(3) by (simp add: initial_simps)
  have grid: "length (gridData s') = 24"
    using s'(4) assms(2) by (simp add: initial_simps zero_grid_def)
  show ?thesis using s'(1) nts names grid by blast
qed

lemma pool_exhausted:
  assumes "map drum_note kit = map drum_note initial_kit @ drop 8 NOTE_POOL"
  shows "set (map drum_note kit) = set NOTE_POOL"
proof -
  have "set (map drum_note kit) = set (take 8 NOTE_POOL) \<union> set (drop 8 NOTE_POOL)"
    using assms initial_used by (simp add: initial_simps)
  also have "\<dots> = set NOTE_POOL"
    by (simp only: set_append [symmetric] append_take_drop_id)
  finally show ?thesis .
qed

text \<open>
  Claim C4, amended. The initial kit already holds 8 of the 24 notes of the pool. From
  the initial state, 16 presses of the add-piece button with non-empty names succeed:
  the kit then has 24 tracks, the new ones carrying the remaining notes in the order of
  the pool and the names given, and the grid has 24 rows. The next press is refused with
  \<open>CapacityExceeded\<close>, before any assignment.
\<close>

theorem capacity_boundary:
  assumes "list_all (\<lambda>a. a \<noteq> None \<and> a \<noteq> Some []) answers" and "length answers = 16"
    and "nm \<noteq> []"
  shows "\<exists>s'. addTracks answers initial_state = Inr s'
     \<and> length (drumKit s') = 24
     \<and> map drum_note (drumKit s') = map drum_note initial_kit @ drop 8 NOTE_POOL
     \<and> map drum_name (drop 8 (drumKit s')) = map the answers
     \<and> length (gridData s') = 24
     \<and> addTrack (Some nm) s' = Inl CapacityExceeded
     \<and> addTracks (answers @ [Some nm]) initial_state = Inl CapacityExceeded"
proof -
  from addTracks_exhaust [OF assms(1,2)]
  obtain s' where s': "addTracks answers initial_state = Inr s'"
     "map drum_note (drumKit s') = map drum_note initial_kit @ drop 8 NOTE_POOL"
     "map drum_name (drumKit s') = map drum_name initial_kit @ map the answers"
     "length (gridData s') = 24"
    by blast
  have len: "length (drumKit s') = 24"
    using arg_cong [OF s'(2), of length] by (simp add: length_initial_kit length_NOTE_POOL)
  have names: "map drum_name (drop 8 (drumKit s')) = map the answers"
    using arg_cong [OF s'(3), of "drop 8"] by (simp add: drop_map length_initial_kit)
  have full: "addTrack (Some nm) s' = Inl CapacityExceeded"
    using pool_exhausted [OF s'(2)] assms(3) by (rule addTrack_full)
  have app: "addTracks (answers @ [Some nm]) initial_state = Inl CapacityExceeded"
    using s'(1) full by (simp add: addTracks_append)
  show ?thesis using s'(1,2,4) len names full app by simp
qed

theorem capacity_boundary_witness:
  "\<exists>s'. addTracks (replicate 16 (Some (str ''Cowbell''))) initial_state = Inr s'
     \<and> length (drumKit s') = 24
     \<and> map drum_note (drop 8 (drumKit s')) = drop 8 NOTE_POOL
     \<and> addTrack (Some (str ''Clap'')) s' = Inl CapacityExceeded"
proof -
  have a: "list_all (\<lambda>a. a \<noteq> None \<and> a \<noteq> Some []) (replicate 16 (Some (str ''Cowbell'')))"
    by (simp add: list_all_iff)
  have b: "length (replicate 16 (Some (str ''Cowbell''))) = 16" by simp
  have c: "(str ''Clap'') \<noteq> []" by simp
  from capacity_boundary [OF a b c] obtain s' where
    s': "addTracks (replicate 16 (Some (str ''Cowbell''))) initial_state = Inr s'"
      "length (drumKit s') = 24"
      "map drum_note (drumKit s') = map drum_note initial_kit @ drop 8 NOTE_POOL"
      "addTrack (Some (str ''Clap'')) s' = Inl CapacityExceeded"
    by blast
  have "map drum_note (drop 8 (drumKit s')) = drop 8 NOTE_POOL"
    using arg_cong [OF s'(3), of "drop 8"] by (simp add: drop_map initial_kit_def)
  with s' show ?thesis by blast
qed

text \<open>The claim as stated fails: the 17th press is refused, so 24 presses do not succeed.\<close>

theorem capacity_24_counterexample:
  "addTracks (replicate 17 (Some (str ''Cowbell''))) initial_state = Inl CapacityExceeded
   \<and> addTracks (replicate 24 (Some (str ''Cowbell''))) initial_state = Inl CapacityExceeded"
proof -
  let ?x = "Some (str ''Cowbell'')"
  have a: "list_all (\<lambda>a. a \<noteq> None \<and> a \<noteq> Some []) (replicate 16 ?x)"
    by (simp add: list_all_iff)
  have b: "length (replicate 16 ?x) = 16" by simp
  from addTracks_exhaust [OF a b]
  obtain s' where s': "addTracks (replicate 16 ?x) initial_state = Inr s'"
     "map drum_note (drumKit s') = map drum_note initial_kit @ drop 8 NOTE_POOL"
    by blast
  have "addTrack ?x s' = Inl CapacityExceeded"
    using pool_exhausted [OF s'(2)] by (rule addTrack_full) simp
  with s'(1) have seventeen:
    "addTracks (replicate 16 ?x @ [?x]) initial_state = Inl CapacityExceeded"
    by (simp add: addTracks_append)
  have r17: "replicate 17 ?x = replicate 16 ?x @ [?x]"
    using replicate_add [of 16 1 ?x] by simp
  have r24: "replicate 24 ?x = (replicate 16 ?x @ [?x]) @ replicate 7 ?x"
    using replicate_add [of 17 7 ?x] r17 by simp
  show ?thesis
    unfolding r24 unfolding r17 using seventeen by (simp only: addTracks_append sum.case)
qed

subsection \<open>Errors of the scheduler\<close>

text \<open>
  A tick of a reachable state can only throw at a block whose name is not an own key of
  the library and still reads as a truthy value: a property inherited along the
  prototype chain. Blocks that read as \<open>undefined\<close> are skipped, and a stored
  matrix always has a first row.
\<close>

lemma find_block_error:
  "find_block lib g bs acc = Inl e \<Longrightarrow>
   \<exists>b \<in> set bs. truthy (js_get lib (name b)) \<and> first_row_length (js_get lib (name b)) = Inl e"
proof (induction bs arbitrary: acc)
  case Nil
  then show ?case by simp
next
  case (Cons b bs)
  show ?case
  proof (cases "truthy (js_get lib (name b))")
    case False
    with Cons show ?thesis by auto
  next
    case True
    show ?thesis
    proof (cases "first_row_length (js_get lib (name b))")
      case (Inl e')
      with True Cons.prems show ?thesis by auto
    next
      case (Inr len)
      with True Cons.prems Cons.IH show ?thesis by (auto split: if_splits)
    qed
  qed
qed

lemma good_matrix_read:
  assumes "good_matrix m"
  shows "\<exists>n. first_row_length (Matrix m) = Inr n"
    and "i < length m \<Longrightarrow> \<exists>n. first_row_length (Row (m ! i)) = Inr n"
proof -
  from assms obtain r0 rest where m: "m = r0 # rest" by (cases m) (auto simp: good_matrix_def)
  then show "\<exists>n. first_row_length (Matrix m) = Inr n" by simp
  assume "i < length m"
  with assms have "1 \<le> length (m ! i)" by (auto simp: good_matrix_def list_all_length)
  then obtain c cs where "m ! i = c # cs" by (cases "m ! i") auto
  then show "\<exists>n. first_row_length (Row (m ! i)) = Inr n" by simp
qed

lemma library_ok_read:
  assumes ok: "library_ok lib" and e: "first_row_length (js_get lib k) = Inl e"
  shows "own lib k = None \<and> (js_get lib k = Undefined \<or> js_get lib k = Inherited \<or> (\<exists>n. js_get lib k = Num n))"
proof (cases "own lib k")
  case (Some m)
  with ok have "good_matrix m" by (auto simp: library_ok_def)
  from good_matrix_read(1) [OF this] Some e show ?thesis by (simp add: js_get_def)
next
  case None
  show ?thesis
  proof (cases "proto lib")
    case nop: None
    with None show ?thesis by (simp add: js_get_def)
  next
    case (Some a)
    with ok have g: "good_matrix a" by (auto simp: library_ok_def)
    have get: "js_get lib k = array_chain_get a k"
      using None Some by (simp add: js_get_def)
    show ?thesis
    proof (cases "array_index k")
      case (Some i)
      show ?thesis
      proof (cases "i < length a")
        case True
        with Some have "array_chain_get a k = Row (a ! i)" by (simp add: array_chain_get_def)
        with good_matrix_read(2) [OF g True] e get show ?thesis by simp
      next
        case False
        with Some have "array_chain_get a k = Undefined" by (simp add: array_chain_get_def)
        with None get show ?thesis by simp
      qed
    next
      case noidx: None
      consider "k = (str ''length'')" | "k \<noteq> (str ''length'')" "k = (str ''__proto__'')"
        | "k \<noteq> (str ''length'')" "k \<noteq> (str ''__proto__'')" by blast
      then show ?thesis
      proof cases
        case 1
        with noidx have "array_chain_get a k = Num (length a)" by (simp add: array_chain_get_def)
        with None get show ?thesis by simp
      next
        case 2
        with noidx have "array_chain_get a k = Matrix a" by (simp add: array_chain_get_def)
        with good_matrix_read(1) [OF g] e get show ?thesis by simp
      next
        case 3
        with noidx have "array_chain_get a k = Inherited \<or> array_chain_get a k = Undefined"
          by (simp add: array_chain_get_def)
        with None get show ?thesis by auto
      qed
    qed
  qed
qed

lemma first_row_length_error: "first_row_length v = Inl e \<Longrightarrow> e = TypeError"
  by (cases v rule: first_row_length.cases) simp_all

lemma tick_error:
  assumes "tick s = Inl e"
  shows "\<exists>b \<in> set (songTimeline s). truthy (js_get (patternLibrary s) (name b))
           \<and> first_row_length (js_get (patternLibrary s) (name b)) = Inl e"
proof -
  from assms have "find_block (patternLibrary s) (globalStep s)
      (sort_key startBar (songTimeline s)) (Fin 0) = Inl e"
    by (auto simp: tick_def Let_def split: sum.splits option.splits prod.splits)
  from find_block_error [OF this] show ?thesis by simp
qed

lemma reachable_tick_error:
  assumes "reachable s" and "tick s = Inl e"
  shows "e = TypeError
     \<and> (\<exists>b \<in> set (songTimeline s). own (patternLibrary s) (name b) = None
           \<and> (js_get (patternLibrary s) (name b) = Inherited
               \<or> (\<exists>n. js_get (patternLibrary s) (name b) = Num n)))"
proof -
  from tick_error [OF assms(2)] obtain b where b: "b \<in> set (songTimeline s)"
    "truthy (js_get (patternLibrary s) (name b))"
    "first_row_length (js_get (patternLibrary s) (name b)) = Inl e" by blast
  from reachable_invariant [OF assms(1)] have ok: "library_ok (patternLibrary s)"
    by (simp add: invariant_def)
  from library_ok_read [OF ok b(3)] b(2)
  have "own (patternLibrary s) (name b) = None
      \<and> (js_get (patternLibrary s) (name b) = Inherited
               \<or> (\<exists>n. js_get (patternLibrary s) (name b) = Num n))" by auto
  with b(1) first_row_length_error [OF b(3)] show ?thesis by blast
qed

lemma reachable_tick_total:
  assumes "reachable s"
    and "list_all (\<lambda>b. own (patternLibrary s) (name b) \<noteq> None
                       \<or> js_get (patternLibrary s) (name b) = Undefined) (songTimeline s)"
  shows "\<exists>s' ns. tick s = Inr (s', ns)"
proof (cases "tick s")
  case (Inr p)
  then show ?thesis by (cases p) simp
next
  case (Inl e)
  from reachable_tick_error [OF assms(1) Inl] assms(2) show ?thesis
    by (auto simp: list_all_iff)
qed

text \<open>
  Claim C5 (fails on the code). With \<open>constructor\<close> in the name field and no pattern
  saved, a click on bar 0 of the timeline is accepted, because
  \<open>patternLibrary['constructor']\<close> is the function inherited from
  \<open>Object.prototype\<close>. After the play button the first tick reads \<open>pattern[0]\<close>,
  which is undefined, and throws a \<open>TypeError\<close> at \<open>.length\<close>.
\<close>

theorem tick_throws_on_inherited_name:
  "place 0 (str ''constructor'') initial_state
      = Inr (initial_state\<lparr>songTimeline := [\<lparr>name = (str ''constructor''), startBar = 0\<rparr>]\<rparr>)
   \<and> play_button (initial_state\<lparr>songTimeline := [\<lparr>name = (str ''constructor''), startBar = 0\<rparr>]\<rparr>)
      = dangling_song
   \<and> reachable dangling_song
   \<and> transport dangling_song = Started
   \<and> tick dangling_song = Inl TypeError"
proof -
  let ?s1 = "initial_state\<lparr>songTimeline := [\<lparr>name = (str ''constructor''), startBar = 0\<rparr>]\<rparr>"
  have p: "place 0 (str ''constructor'') initial_state = Inr ?s1"
    by (simp add: place_def trim_def is_space_def str_def initial_simps js_get_def
        object_prototype_names_def)
  have q: "play_button ?s1 = dangling_song"
    by (simp add: play_button_def dangling_song_def initial_simps)
  have "reachable ?s1" using reachable.start p by (rule reachable.timeline_click)
  then have "reachable (play_button ?s1)" by (rule reachable.play)
  then have r: "reachable dangling_song" by (simp only: q)
  have t: "tick dangling_song = Inl TypeError"
    by (simp add: tick_def dangling_song_def initial_simps js_get_def object_prototype_names_def)
  show ?thesis using p q r t by (simp add: dangling_song_def)
qed

subsection \<open>The empty arrangement\<close>

text \<open>
  Claim C6. With no block on the timeline, a started transport is never stopped by the
  callback: after any number \<open>n\<close> of clock pulses the state is the starting state with
  the step counter advanced by \<open>n\<close>, so the transport is still started and the counter
  exceeds every bound. (The counter is a natural number here; a JavaScript number stops
  growing at \<open>2^53\<close>, which sixteenth notes do not reach.)
\<close>

theorem empty_arrangement_never_stops:
  assumes "songTimeline s = []" and "transport s = Started"
  shows "run_ticks n s = Inr (s\<lparr>globalStep := globalStep s + n\<rparr>)"
  using assms
proof (induction n arbitrary: s)
  case 0
  then show ?case by simp
next
  case (Suc n)
  let ?s' = "s\<lparr>globalStep := globalStep s + 1\<rparr>"
  have "run_ticks (Suc n) s = run_ticks n ?s'"
    using Suc.prems by (simp add: tick_empty)
  also have "\<dots> = Inr (?s'\<lparr>globalStep := globalStep ?s' + n\<rparr>)"
    using Suc.prems by (intro Suc.IH) simp_all
  finally show ?case by simp
qed

theorem empty_arrangement_never_stops_witness:
  "songTimeline (play_button initial_state) = []
   \<and> transport (play_button initial_state) = Started
   \<and> run_ticks 1000 (play_button initial_state)
       = Inr ((play_button initial_state)\<lparr>globalStep := 1000\<rparr>)"
proof -
  have a: "songTimeline (play_button initial_state) = []"
    by (simp add: play_button_def initial_state_def resetGridData_def)
  have b: "transport (play_button initial_state) = Started"
    by (simp add: play_button_def initial_state_def resetGridData_def)
  have c: "globalStep (play_button initial_state) = 0"
    by (simp add: play_button_def initial_state_def resetGridData_def)
  show ?thesis
    using empty_arrangement_never_stops [OF a b, of 1000] a b c by simp
qed

subsection \<open>Resizing the grid\<close>

text \<open>
  Claim C7. For every grid, every row \<open>r\<close> of it and every new step count \<open>n\<close>
  (the accepted ones among them), \<open>adjustGridSize n\<close> keeps the number of rows, gives
  row \<open>r\<close> the length \<open>n\<close>, keeps each cell below the old length of the row and sets
  the cells from the old length on to 0. Resizing to \<open>n\<close> and then back to the old
  length restores the cells below \<open>min n old\<close> and leaves 0 in the others.
\<close>

theorem resize_preservation:
  assumes r: "r < length (gridData s)"
  shows "length (gridData (adjustGridSize n s)) = length (gridData s)
     \<and> length (gridData (adjustGridSize n s) ! r) = n
     \<and> (\<forall>i < n. gridData (adjustGridSize n s) ! r ! i =
            (if i < length (gridData s ! r) then gridData s ! r ! i else 0))
     \<and> length (gridData (adjustGridSize (length (gridData s ! r)) (adjustGridSize n s)) ! r)
          = length (gridData s ! r)
     \<and> (\<forall>i < length (gridData s ! r).
            gridData (adjustGridSize (length (gridData s ! r)) (adjustGridSize n s)) ! r ! i =
            (if i < min n (length (gridData s ! r)) then gridData s ! r ! i else 0))"
proof -
  define m where "m = length (gridData s ! r)"
  then have len: "length (gridData s ! r) = m" by simp
  have g1: "gridData (adjustGridSize n s) = map (resize_row n) (gridData s)"
    by (simp add: adjustGridSize_def gridData_saveCurrentToLibrary)
  have g2: "gridData (adjustGridSize m (adjustGridSize n s))
      = map (resize_row m) (map (resize_row n) (gridData s))"
    by (simp add: adjustGridSize_def gridData_saveCurrentToLibrary)
  have a: "length (gridData (adjustGridSize n s)) = length (gridData s)"
    by (simp add: g1)
  have b: "length (gridData (adjustGridSize n s) ! r) = n"
    using r by (simp add: g1 length_resize_row)
  have c: "\<forall>i < n. gridData (adjustGridSize n s) ! r ! i =
            (if i < m then gridData s ! r ! i else 0)"
    using r by (simp add: g1 nth_resize_row len)
  have d: "length (gridData (adjustGridSize m (adjustGridSize n s)) ! r) = m"
    using r by (simp add: g2 length_resize_row)
  have e: "\<forall>i < m. gridData (adjustGridSize m (adjustGridSize n s)) ! r ! i =
            (if i < min n m then gridData s ! r ! i else 0)"
    using r by (simp add: g2 nth_resize_row length_resize_row len)
  show ?thesis
    using a b c [unfolded m_def] d [unfolded m_def] e [unfolded m_def] by (intro conjI)
qed

theorem resize_preservation_witness:
  "gridData (adjustGridSize 2 (initial_state\<lparr>gridData := [[1, 0, 1, 1], [0, 1, 1, 0]]\<rparr>)) ! 0
     = [1, 0]
   \<and> gridData (adjustGridSize 4 (adjustGridSize 2
        (initial_state\<lparr>gridData := [[1, 0, 1, 1], [0, 1, 1, 0]]\<rparr>))) ! 0 = [1, 0, 0, 0]"
proof -
  let ?s = "initial_state\<lparr>gridData := [[1, 0, 1, 1], [0, 1, 1, 0]]\<rparr>"
  have r: "0 < length (gridData ?s)" by simp
  have m: "length (gridData ?s ! 0) = 4" by simp
  note t = resize_preservation [OF r, of 2, unfolded m]
  have l1: "length (gridData (adjustGridSize 2 ?s) ! 0) = 2" using t by blast
  have c1: "gridData (adjustGridSize 2 ?s) ! 0 ! 0 = 1" "gridData (adjustGridSize 2 ?s) ! 0 ! 1 = 0"
    using t by simp_all
  have l2: "length (gridData (adjustGridSize 4 (adjustGridSize 2 ?s)) ! 0) = 4" using t by blast
  have c2: "gridData (adjustGridSize 4 (adjustGridSize 2 ?s)) ! 0 ! 0 = 1"
     "gridData (adjustGridSize 4 (adjustGridSize 2 ?s)) ! 0 ! 1 = 0"
     "gridData (adjustGridSize 4 (adjustGridSize 2 ?s)) ! 0 ! 2 = 0"
     "gridData (adjustGridSize 4 (adjustGridSize 2 ?s)) ! 0 ! 3 = 0"
    using t by simp_all
  have "gridData (adjustGridSize 2 ?s) ! 0 = [1, 0]"
    using l1 c1 by (intro list2_eq) simp_all
  moreover have "gridData (adjustGridSize 4 (adjustGridSize 2 ?s)) ! 0 = [1, 0, 0, 0]"
    using l2 c2 by (intro list4_eq) simp_all
  ultimately show ?thesis by simp
qed

subsection \<open>The step-count input\<close>

text \<open>
  Claim C10, amended. The handler of the step-count input changes something only when
  \<open>parseInt\<close> of the text of the field is an integer \<open>n\<close> with
  \<open>1 \<le> n \<le> 64\<close>: when it is \<open>NaN\<close> or an integer outside the range, the whole
  state (step count, grid and library with it) is what it was; when it is in the range,
  the step count becomes \<open>n\<close> and every row is resized to \<open>n\<close>.
\<close>

theorem step_count_change_guard:
  "((parseInt text = None \<or> (\<exists>n. parseInt text = Some n \<and> (n < 1 \<or> 64 < n))) \<longrightarrow>
       stepsInput_change text s = s)
   \<and> (\<forall>n. parseInt text = Some n \<and> 1 \<le> n \<and> n \<le> 64 \<longrightarrow>
        currentSteps (stepsInput_change text s) = nat n
        \<and> gridData (stepsInput_change text s) = map (resize_row (nat n)) (gridData s))"
proof (intro conjI allI impI)
  assume "parseInt text = None \<or> (\<exists>n. parseInt text = Some n \<and> (n < 1 \<or> 64 < n))"
  then show "stepsInput_change text s = s" by (rule stepsInput_change_refused)
next
  fix n
  assume n: "parseInt text = Some n \<and> 1 \<le> n \<and> n \<le> 64"
  then show "currentSteps (stepsInput_change text s) = nat n"
    by (intro stepsInput_change_accepted(2)) simp_all
  from n show "gridData (stepsInput_change text s) = map (resize_row (nat n)) (gridData s)"
    by (intro stepsInput_change_accepted(3)) simp_all
qed

theorem step_count_change_guard_witness:
  "stepsInput_change [] initial_state = initial_state
   \<and> stepsInput_change (str ''abc'') initial_state = initial_state
   \<and> stepsInput_change (str ''0'') initial_state = initial_state
   \<and> stepsInput_change (str ''65'') initial_state = initial_state
   \<and> stepsInput_change (str ''-3'') initial_state = initial_state
   \<and> currentSteps (stepsInput_change (str ''1'') initial_state) = 1
   \<and> currentSteps (stepsInput_change (str ''64'') initial_state) = 64"
proof -
  have p: "parseInt [] = None" "parseInt (str ''abc'') = None" "parseInt (str ''0'') = Some 0"
    "parseInt (str ''65'') = Some 65" "parseInt (str ''-3'') = Some (- 3)"
    "parseInt (str ''1'') = Some 1" "parseInt (str ''64'') = Some 64"
    by (simp_all add: parseInt_eval)
  show ?thesis
    using step_count_change_guard [of "[]" initial_state]
      step_count_change_guard [of "str ''abc''" initial_state]
      step_count_change_guard [of "str ''0''" initial_state]
      step_count_change_guard [of "str ''65''" initial_state]
      step_count_change_guard [of "str ''-3''" initial_state]
      step_count_change_guard [of "str ''1''" initial_state]
      step_count_change_guard [of "str ''64''" initial_state]
    by (simp add: p)
qed

text \<open>
  The claim as stated fails on the value the field requests: the texts \<open>64.9\<close>,
  \<open>1e3\<close> (the number 1000) and \<open> 7px\<close> are no integers between 1 and 64, and
  the handler still changes the step count from 16 to 64, 1 and 7, the integers that
  \<open>parseInt\<close> reads at their start.
\<close>

theorem step_count_text_counterexample:
  "currentSteps initial_state = 16
   \<and> currentSteps (stepsInput_change (str ''64.9'') initial_state) = 64
   \<and> currentSteps (stepsInput_change (str ''1e3'') initial_state) = 1
   \<and> currentSteps (stepsInput_change (str '' 7px'') initial_state) = 7"
proof -
  have p: "parseInt (str ''64.9'') = Some 64" "parseInt (str ''1e3'') = Some 1"
    "parseInt (str '' 7px'') = Some 7"
    by (simp_all add: parseInt_eval)
  show ?thesis
    using stepsInput_change_accepted(2) [OF p(1), of initial_state]
      stepsInput_change_accepted(2) [OF p(2), of initial_state]
      stepsInput_change_accepted(2) [OF p(3), of initial_state]
    by (simp add: initial_simps)
qed

subsection \<open>Save as\<close>

text \<open>
  With a name field that is empty or all white space, the save handler returns
  \<open>InvalidName\<close> before any assignment. With any other text whose trimmed name is not
  the key \<open>__proto__\<close>, the grid is stored in the library under the trimmed name,
  replacing the entry that was there, and the trimmed name becomes the active pattern.
  A name with no white space at either end is its own trimmed name.
\<close>

lemma saveAs_blank: "list_all is_space text \<Longrightarrow> saveAs text s = Inl InvalidName"
  by (simp add: saveAs_def trim_blank)

lemma saveAs_stores:
  assumes "\<not> list_all is_space text" and "trim text \<noteq> str ''__proto__''"
  shows "saveAs text s =
     Inr (s\<lparr>patternLibrary :=
              (patternLibrary s)\<lparr>own := (own (patternLibrary s))(trim text \<mapsto> gridData s)\<rparr>,
            currentActivePattern := Some (trim text)\<rparr>)"
proof -
  from assms(1) have "trim text \<noteq> []" by (simp add: trim_blank)
  moreover from assms(2) have "js_set (patternLibrary s) (trim text) (gridData s)
      = (patternLibrary s)\<lparr>own := (own (patternLibrary s))(trim text \<mapsto> gridData s)\<rparr>"
    by (simp add: js_set_def)
  ultimately show ?thesis by (simp add: saveAs_def Let_def)
qed

text \<open>
  Claim C9 (fails on the code). With \<open>__proto__\<close> in the name field, the assignment
  \<open>patternLibrary[name] = ...\<close> of the save handler runs the setter inherited from
  \<open>Object.prototype\<close>: the copy of the grid becomes the prototype of the library
  object, the library has no entry under the name (\<open>Object.keys\<close> lists none, so no
  button offers the pattern, and \<open>loadPattern\<close> on an own entry finds nothing), and
  the name is the active pattern all the same.
\<close>

theorem saveAs_proto_stores_no_entry:
  "saveAs (str ''__proto__'') initial_state = Inr saved_proto
   \<and> reachable saved_proto
   \<and> currentActivePattern saved_proto = Some (str ''__proto__'')
   \<and> own (patternLibrary saved_proto) (str ''__proto__'') = None
   \<and> dom (own (patternLibrary saved_proto)) = {}
   \<and> proto (patternLibrary saved_proto) = Some (gridData initial_state)
   \<and> loadPattern (str ''__proto__'') saved_proto = Inl NotFound"
proof -
  have r: "reachable saved_proto"
    using reachable.start saveAs_proto by (rule reachable.save)
  have l: "loadPattern (str ''__proto__'') saved_proto = Inl NotFound"
    by (simp add: loadPattern_def saved_proto_def)
  show ?thesis using saveAs_proto r l by (simp add: saved_proto_def)
qed

subsection \<open>Loading a pattern\<close>

text \<open>
  Claim C8. Loading an entry \<open>stored\<close> of the library under the name \<open>k\<close> succeeds
  and makes \<open>k\<close> the active pattern; the step count becomes the length of the first
  stored row, or 16 when there is no stored row; the grid gets one row per track of the
  kit, row \<open>i\<close> being the stored row \<open>i\<close> where there is one and a row of zeros of
  the new step count otherwise. With more tracks than stored rows the rows past the
  stored ones are zero rows; with fewer, the stored rows past the kit are dropped.
\<close>

theorem load_merge:
  assumes stored: "own (patternLibrary s) k = Some stored"
  shows "\<exists>s'. loadPattern k s = Inr s'
     \<and> currentActivePattern s' = Some k
     \<and> currentSteps s' = (case stored of [] \<Rightarrow> 16 | r0 # rest \<Rightarrow> length r0)
     \<and> length (gridData s') = length (drumKit s)
     \<and> (\<forall>i < length (drumKit s).
           gridData s' ! i = (if i < length stored then stored ! i
                              else replicate (currentSteps s') 0))"
  using stored by (simp add: loadPattern_def Let_def)

theorem load_merge_witness:
  "\<exists>s'. loadPattern (str ''P'')
          (initial_state\<lparr>patternLibrary :=
             \<lparr>own = [(str ''P'') \<mapsto> replicate 5 [1, 0, 1]], proto = None\<rparr>\<rparr>) = Inr s'
     \<and> currentActivePattern s' = Some (str ''P'')
     \<and> currentSteps s' = 3
     \<and> length (gridData s') = 8
     \<and> gridData s' ! 0 = [1, 0, 1] \<and> gridData s' ! 4 = [1, 0, 1]
     \<and> gridData s' ! 5 = [0, 0, 0] \<and> gridData s' ! 7 = [0, 0, 0]"
proof -
  let ?s = "initial_state\<lparr>patternLibrary :=
             \<lparr>own = [(str ''P'') \<mapsto> replicate 5 [1, 0, 1]], proto = None\<rparr>\<rparr>"
  have stored: "own (patternLibrary ?s) (str ''P'') = Some (replicate 5 [1, 0, 1])" by simp
  have kit: "length (drumKit ?s) = 8"
    by (simp add: initial_state_def resetGridData_def initial_kit_def)
  from load_merge [OF stored] obtain s' where s': "loadPattern (str ''P'') ?s = Inr s'"
     "currentActivePattern s' = Some (str ''P'')"
     "currentSteps s' = (case replicate 5 [1, 0, 1::nat] of [] \<Rightarrow> 16 | r0 # rest \<Rightarrow> length r0)"
     "length (gridData s') = length (drumKit ?s)"
     "\<forall>i < length (drumKit ?s).
           gridData s' ! i = (if i < length (replicate 5 [1, 0, 1::nat])
                              then replicate 5 [1, 0, 1] ! i
                              else replicate (currentSteps s') 0)"
    by blast
  have steps: "currentSteps s' = 3" using s'(3) by (simp add: numeral_eq_Suc)
  have rows: "gridData s' ! 0 = [1, 0, 1]" "gridData s' ! 4 = [1, 0, 1]"
     "gridData s' ! 5 = [0, 0, 0]" "gridData s' ! 7 = [0, 0, 0]"
    using s'(5) kit steps by (simp_all add: numeral_eq_Suc)
  show ?thesis using s'(1,2,4) steps rows kit by simp
qed

end

